theory Spec2Isabelle
  imports Complex_Main "HOL-Library.Monad_Syntax"
begin

section \<open>muzz.c: a shallow embedding\<close>

text \<open>
  The program is one C file: a \<open>getopt\<close> loop in \<open>main\<close>, three formula functions
  reading the global divisor \<open>K\<close>, and two printing functions. The embedding keeps the
  source's names and its branch order. The global \<open>K\<close> is passed explicitly; what the
  program writes is collected in an \<open>outcome\<close> record together with the exit status.
  The C library is modelled as the GNU C library on x86-64 behaves.
\<close>

subsection \<open>Values of type double\<close>

text \<open>
  An IEEE 754 binary64 value: a finite number (\<open>Fin 0\<close> is the positive zero), the
  negative zero, an infinity, or a NaN with its sign bit clear (\<open>NaN\<close>) or set
  (\<open>NNaN\<close>). The operations round to nearest, ties to even, in the binary64 format
  (53 significant bits, exponents from -1022 to 1023, gradual underflow, overflow to
  infinity). An invalid operation returns the NaN with the sign bit set and an operation on
  a NaN returns its first NaN operand, as the SSE2 instructions of x86-64 do.
\<close>

datatype double = Fin real | NZero | PInf | NInf | NaN | NNaN

definition is_nan :: "double \<Rightarrow> bool" where
  "is_nan x = (x = NaN \<or> x = NNaN)"

definition is_inf :: "double \<Rightarrow> bool" where
  "is_inf x = (x = PInf \<or> x = NInf)"

definition is_zero :: "double \<Rightarrow> bool" where
  "is_zero x = (x = Fin 0 \<or> x = NZero)"

definition sign_bit :: "double \<Rightarrow> bool" where
  "sign_bit x = (case x of Fin r \<Rightarrow> r < 0 | NZero \<Rightarrow> True | PInf \<Rightarrow> False | NInf \<Rightarrow> True
                 | NaN \<Rightarrow> False | NNaN \<Rightarrow> True)"

text \<open>The number a finite value stands for.\<close>

definition val :: "double \<Rightarrow> real" where
  "val x = (case x of Fin r \<Rightarrow> r | _ \<Rightarrow> 0)"

definition inf_of_sign :: "bool \<Rightarrow> double" where
  "inf_of_sign neg = (if neg then NInf else PInf)"

definition zero_of_sign :: "bool \<Rightarrow> double" where
  "zero_of_sign neg = (if neg then NZero else Fin 0)"

definition dneg :: "double \<Rightarrow> double" where
  "dneg x = (case x of Fin r \<Rightarrow> (if r = 0 then NZero else Fin (- r)) | NZero \<Rightarrow> Fin 0
             | PInf \<Rightarrow> NInf | NInf \<Rightarrow> PInf | NaN \<Rightarrow> NNaN | NNaN \<Rightarrow> NaN)"

text \<open>
  Rounding a real to binary64. \<open>exponent a\<close> is the \<open>e\<close> with \<open>2^e \<le> a < 2^(e+1)\<close>;
  the representable numbers next to \<open>a\<close> are the multiples of \<open>quantum a\<close>.
\<close>

fun bit_length :: "nat \<Rightarrow> nat" where
  "bit_length n = (if n = 0 then 0 else Suc (bit_length (n div 2)))"

declare bit_length.simps [simp del]

definition pow2 :: "int \<Rightarrow> real" where
  "pow2 e = (if 0 \<le> e then 2 ^ nat e else 1 / 2 ^ nat (- e))"

definition exponent :: "real \<Rightarrow> int" where
  "exponent a = (if 1 \<le> a then int (bit_length (nat \<lfloor>a\<rfloor>)) - 1
                 else - int (bit_length (nat (\<lceil>1 / a\<rceil> - 1))))"

definition quantum :: "real \<Rightarrow> real" where
  "quantum a = pow2 (max (exponent a) (- 1022) - 52)"

definition round_half_even :: "real \<Rightarrow> int" where
  "round_half_even r =
     (let f = \<lfloor>r\<rfloor>; d = r - of_int f
      in if d < 1/2 then f else if 1/2 < d then f + 1 else if even f then f else f + 1)"

definition round_to :: "real \<Rightarrow> real \<Rightarrow> real" where
  "round_to q a = of_int (round_half_even (a / q)) * q"

definition pack :: "bool \<Rightarrow> real \<Rightarrow> double" where
  "pack neg m =
     (if pow2 1024 \<le> m then inf_of_sign neg
      else if m = 0 then zero_of_sign neg
      else Fin (if neg then - m else m))"

definition to_double :: "real \<Rightarrow> double" where
  "to_double x = (if x = 0 then Fin 0 else pack (x < 0) (round_to (quantum \<bar>x\<bar>) \<bar>x\<bar>))"

definition dmul :: "double \<Rightarrow> double \<Rightarrow> double" where
  "dmul x y =
     (if is_nan x then x else if is_nan y then y
      else if is_inf x \<or> is_inf y then
        (if is_zero x \<or> is_zero y then NNaN else inf_of_sign (sign_bit x \<noteq> sign_bit y))
      else if is_zero x \<or> is_zero y then zero_of_sign (sign_bit x \<noteq> sign_bit y)
      else to_double (val x * val y))"

definition ddiv :: "double \<Rightarrow> double \<Rightarrow> double" where
  "ddiv x y =
     (if is_nan x then x else if is_nan y then y
      else if is_inf x then
        (if is_inf y then NNaN else inf_of_sign (sign_bit x \<noteq> sign_bit y))
      else if is_inf y then zero_of_sign (sign_bit x \<noteq> sign_bit y)
      else if is_zero y then
        (if is_zero x then NNaN else inf_of_sign (sign_bit x \<noteq> sign_bit y))
      else if is_zero x then zero_of_sign (sign_bit x \<noteq> sign_bit y)
      else to_double (val x / val y))"

text \<open>\<open>sqrt\<close> of \<open>math.h\<close>, correctly rounded; the root of a negative number is a NaN.\<close>

definition dsqrt :: "double \<Rightarrow> double" where
  "dsqrt x =
     (case x of
        Fin r \<Rightarrow> if r < 0 then NNaN else to_double (sqrt r)
      | NZero \<Rightarrow> NZero | PInf \<Rightarrow> PInf | NInf \<Rightarrow> NNaN | NaN \<Rightarrow> NaN | NNaN \<Rightarrow> NNaN)"

text \<open>
  \<open>round\<close> of \<open>math.h\<close>: the nearest integer, halfway cases away from zero, with the
  sign of the argument (HOL's own \<open>round\<close> sends halfway cases up, so it is not used).
\<close>

definition round_away :: "real \<Rightarrow> int" where
  "round_away r = (if 0 \<le> r then \<lfloor>r + 1/2\<rfloor> else - \<lfloor>- r + 1/2\<rfloor>)"

definition c_round :: "double \<Rightarrow> double" where
  "c_round x =
     (case x of
        Fin r \<Rightarrow> if r < 0 \<and> round_away r = 0 then NZero else Fin (of_int (round_away r))
      | _ \<Rightarrow> x)"

subsection \<open>printf with a fixed number of decimals\<close>

text \<open>
  The conversions \<open>%.0lf\<close>, \<open>%.02lf\<close> and \<open>%.03lf\<close>: the exact value of the double
  is rounded to \<open>p\<close> decimals, halfway cases to the even digit, and printed with a minus
  sign when the sign bit is set, without a decimal point when \<open>p = 0\<close>.
\<close>

abbreviation NL :: char where "NL \<equiv> CHR 0x0A"
abbreviation TAB :: char where "TAB \<equiv> CHR 0x09"
abbreviation DQUOTE :: char where "DQUOTE \<equiv> CHR 0x22"

definition digit_char :: "nat \<Rightarrow> char" where
  "digit_char n = ''0123456789'' ! n"

function show_nat :: "nat \<Rightarrow> string" where
  "show_nat n = (if n < 10 then [digit_char n] else show_nat (n div 10) @ [digit_char (n mod 10)])"
  by pat_completeness auto
termination
  by (relation "measure id") auto

declare show_nat.simps [simp del]

definition pad_zeros :: "nat \<Rightarrow> string \<Rightarrow> string" where
  "pad_zeros p ds = replicate (p - length ds) (CHR ''0'') @ ds"

definition show_fixed :: "nat \<Rightarrow> real \<Rightarrow> string" where
  "show_fixed p a =
     (let n = nat (round_half_even (a * 10 ^ p))
      in show_nat (n div 10 ^ p)
         @ (if p = 0 then [] else ''.'' @ pad_zeros p (show_nat (n mod 10 ^ p))))"

definition printf_f :: "nat \<Rightarrow> double \<Rightarrow> string" where
  "printf_f p x =
     (case x of
        Fin r \<Rightarrow> (if r < 0 then ''-'' else []) @ show_fixed p \<bar>r\<bar>
      | NZero \<Rightarrow> ''-'' @ show_fixed p 0
      | PInf \<Rightarrow> ''inf''
      | NInf \<Rightarrow> ''-inf''
      | NaN \<Rightarrow> ''nan''
      | NNaN \<Rightarrow> ''-nan'')"

subsection \<open>Enumerations, constants and the options array\<close>

text \<open>\<open>enum ParametersGiven\<close>; \<open>result\<close> takes the selector as an \<open>int\<close>.\<close>

definition PARAM_MASS :: int where "PARAM_MASS = 0"
definition PARAM_VELOCITY :: int where "PARAM_VELOCITY = 1"
definition PARAM_ENERGY :: int where "PARAM_ENERGY = 2"

text \<open>\<open>enum OptionsEnum\<close> indexes \<open>int options[TOTAL_OPTIONS]\<close>.\<close>

datatype OptionsEnum = OPT_VERBOSE | OPT_SI | OPT_PRECISE | OPT_TKOF | OPT_K

type_synonym options = "OptionsEnum \<Rightarrow> int"

text \<open>
  The two gravity constants are the doubles nearest to 32.163 and 32.1739; the other
  constants of the program (2, 1000, 3500, 7000, 450240) are doubles as they stand.
\<close>

definition GRAVITY_IMPERIAL_APPROX :: double where
  "GRAVITY_IMPERIAL_APPROX = to_double (32163 / 1000)"

definition GRAVITY_IMPERIAL :: double where
  "GRAVITY_IMPERIAL = to_double (321739 / 10000)"

definition optString :: string where
  "optString = ''VhEHSqsimveptcCKk:''"

subsection \<open>The formulas\<close>

text \<open>Each reads the global \<open>K\<close>, here the first argument.\<close>

definition get_energy :: "double \<Rightarrow> double \<Rightarrow> double \<Rightarrow> int \<Rightarrow> double" where
  "get_energy K mass velocity si =
     (if si = 1 then ddiv (dmul (ddiv mass (Fin 2)) (dmul velocity velocity)) K
      else ddiv (dmul mass (dmul velocity velocity)) K)"

definition get_mass :: "double \<Rightarrow> double \<Rightarrow> double \<Rightarrow> int \<Rightarrow> double" where
  "get_mass K velocity energy si =
     (if si = 1 then dmul (ddiv (dmul energy (Fin 2)) (dmul velocity velocity)) K
      else dmul (ddiv energy (dmul velocity velocity)) K)"

definition get_velocity :: "double \<Rightarrow> double \<Rightarrow> double \<Rightarrow> int \<Rightarrow> double" where
  "get_velocity K mass energy si =
     (if si = 1 then dsqrt (dmul (ddiv (dmul energy (Fin 2)) mass) K)
      else dsqrt (dmul (ddiv energy mass) K))"

subsection \<open>Printing the result\<close>

text \<open>\<open>verbose_result\<close> returns what it writes to standard output.\<close>

definition verbose_result :: "double \<Rightarrow> double \<Rightarrow> double \<Rightarrow> options \<Rightarrow> string" where
  "verbose_result mass velocity energy options =
     (if options OPT_VERBOSE = 1 then
        (if options OPT_SI = 1 then
           (if options OPT_PRECISE = 1 then
              printf_f 2 mass @ '' g @ '' @ printf_f 2 velocity @ '' m/s = ''
                @ printf_f 2 energy @ '' J'' @ [NL]
            else
              printf_f 2 mass @ '' g @ '' @ printf_f 2 velocity @ '' m/s = ''
                @ printf_f 0 (c_round energy) @ '' J'' @ [NL])
         else
           (if options OPT_PRECISE = 1 then
              printf_f 2 mass @ '' gr @ '' @ printf_f 2 velocity @ '' ft/s = ''
                @ printf_f 2 energy @ '' lbf'' @ [NL]
            else
              printf_f 0 (c_round mass) @ '' gr @ '' @ printf_f 0 (c_round velocity)
                @ '' ft/s = '' @ printf_f 0 (c_round energy) @ '' lbf'' @ [NL]))
      else [])"

text \<open>
  The first statements of \<open>result\<close> set the global \<open>K\<close> from \<open>options[OPT_K]\<close>: the
  \<open>switch\<close> has cases -1, 1 and 2 and no default, so any other value leaves \<open>K\<close> as it
  is; then metric units force 1000 unless \<open>options[OPT_K]\<close> is 0.
\<close>

definition set_constant :: "options \<Rightarrow> double \<Rightarrow> double" where
  "set_constant options K =
     (let K1 = (if options OPT_K = -1 then Fin 450240
                else if options OPT_K = 1 then dmul (dmul (Fin 2) GRAVITY_IMPERIAL_APPROX) (Fin 7000)
                else if options OPT_K = 2 then dmul (dmul (Fin 2) GRAVITY_IMPERIAL) (Fin 7000)
                else K)
      in if options OPT_SI = 1 \<and> options OPT_K \<noteq> 0 then Fin 1000 else K1)"

text \<open>
  \<open>result\<close> returns its output and the value of the global \<open>K\<close> when it returns. The
  local \<open>result\<close> of the source is \<open>res\<close>.
\<close>

definition result :: "double \<Rightarrow> double \<Rightarrow> double \<Rightarrow> double \<Rightarrow> int \<Rightarrow> options \<Rightarrow> string \<times> double" where
  "result K0 mass velocity energy param options =
     (let K = set_constant options K0;
          (res, verbose) =
            (if param = PARAM_ENERGY then
               (let r = get_energy K mass velocity (options OPT_SI)
                in (r, verbose_result mass velocity r options))
             else if param = PARAM_MASS then
               (let r = get_mass K velocity energy (options OPT_SI)
                in (r, verbose_result r velocity energy options))
             else if param = PARAM_VELOCITY then
               (let r = get_velocity K mass energy (options OPT_SI)
                in (r, verbose_result mass r energy options))
             else (Fin (-1), []));
          terse =
            (if options OPT_VERBOSE \<noteq> 1 then
               (if options OPT_PRECISE = 1 then printf_f 2 res @ [NL]
                else printf_f 0 res @ [NL])
             else [])
      in (verbose @ terse, K))"

text \<open>The Taylor knockout formula; \<open>tkof\<close> returns what it writes to standard output.\<close>

definition tkof :: "double \<Rightarrow> double \<Rightarrow> double \<Rightarrow> options \<Rightarrow> string" where
  "tkof mass velocity diameter options =
     (if options OPT_SI = 1 then
        (let ko = ddiv (dmul (dmul mass velocity) diameter) (Fin 3500)
         in if options OPT_VERBOSE = 1 then
              printf_f 2 mass @ '' g @ '' @ printf_f 2 velocity @ '' m/s (''
                @ printf_f 2 diameter @ '' mm diameter) = '' @ printf_f 2 ko @ '' TKOF'' @ [NL]
            else printf_f 2 ko @ [NL])
      else
        (let ko = ddiv (dmul (dmul mass velocity) diameter) (Fin 7000)
         in if options OPT_VERBOSE = 1 then
              (if options OPT_PRECISE = 1 then
                 printf_f 2 mass @ '' gr @ '' @ printf_f 2 velocity @ '' ft/s (''
                   @ printf_f 3 diameter @ [DQUOTE] @ '' diameter) = '' @ printf_f 2 ko @ '' ''
                   @ ''TKOF'' @ [NL]
               else
                 printf_f 0 (c_round mass) @ '' gr @ '' @ printf_f 0 (c_round velocity)
                   @ '' ft/s ('' @ printf_f 3 diameter @ [DQUOTE] @ '' diameter) = ''
                   @ printf_f 2 ko @ '' '' @ ''TKOF'' @ [NL])
            else printf_f 2 ko @ [NL]))"

subsection \<open>Usage, help and version texts\<close>

text \<open>Each function returns the text it prints; the caller names the stream.\<close>

abbreviation QUOTE :: char where "QUOTE \<equiv> CHR 0x27"

definition VERSION :: string where
  "VERSION = ''1.01''"

definition print_usage :: string where
  "print_usage =
     ''Usage:  muzz [OPTION] MASS VELOCITY [DIAMETER]'' @ [NL]"

definition print_help :: string where
  "print_help =
     print_usage
     @ [NL] @ ''The program is used primarily to calculate the muzzle energy ''
     @ ''of projectiles.'' @ [NL, NL]
     @ ''Imperial gravity accleration constants (K = 2 * GAC * 7000) :'' @ [NL]
     @ ''GAC-1 (industry):  32.163'' @ [TAB]
     @ ''GAC-2 (standard):  32.1739'' @ [NL]
     @ [NL] @ ''Options'' @ [NL]
     @ ''  -h'' @ [TAB, TAB] @ ''Print this help text'' @ [NL]
     @ ''  -H'' @ [TAB, TAB] @ ''Print additional information on units used, etc.'' @ [NL]
     @ ''  -E'' @ [TAB, TAB] @ ''Print example usage'' @ [NL]
     @ ''  -V'' @ [TAB, TAB] @ ''Print version and author info'' @ [NL]
     @ ''  -S or q'' @ [TAB] @ ''Silent (quiet) mode; print only the resultant number'' @ [NL]
     @ ''  -s'' @ [TAB, TAB] @ ''Use Si (metric) units of measure - grams, m/s, joules'' @ [NL]
     @ ''  -i'' @ [TAB, TAB] @ ''Use Imperial units - grains, ft/s, lbf (default)'' @ [NL]
     @ ''  -m'' @ [TAB, TAB] @ ''Calculate for mass (num1 = velocity, num2 = energy)'' @ [NL]
     @ ''  -v'' @ [TAB, TAB] @ ''Calculate for velocity (num1 = mass, num2 = energy)'' @ [NL]
     @ ''  -e'' @ [TAB, TAB] @ ''Calculate for energy (num1 = mass, num2 = velocity) ''
     @ ''(default)'' @ [NL]
     @ ''  -K'' @ [TAB, TAB] @ ''Use industry standard imperial constant (450,240) ''
     @ '' (default)'' @ [NL]
     @ ''  -k [num]'' @ [TAB] @ ''Custom user constant'' @ [NL]
     @ ''  -c'' @ [TAB, TAB] @ ''Calculate constant using '' @ [QUOTE] @ ''industry''
       @ [QUOTE] @ '' GAC-1'' @ [NL]
     @ ''  -C'' @ [TAB, TAB] @ ''Calculate constant using standard GAC-2'' @ [NL]
     @ ''  -p'' @ [TAB, TAB] @ ''Be precise (do not round any numbers)'' @ [NL] @ ''  ''
     @ ''-t'' @ [TAB, TAB] @ ''Use Taylor Knockout Formula (give mass, velocity, diameter)''
     @ [NL]"

definition print_examples :: string where
  "print_examples =
     ''Examples:'' @ [NL, NL]
     @ ''muzz 230 900'' @ [NL]
     @ ''  Returns muzzle energy of a 230 grain bullet @ 900 ft/s'' @ [NL]
     @ [NL] @ ''muzz -s 15 270'' @ [NL]
     @ ''  Using Si units of measure, returns joules (15grams @ 270 m/s)'' @ [NL]
     @ [NL] @ ''muzz -qp 230 900'' @ [NL]
     @ ''  Same, but only the number and with nothing rounded'' @ [NL]
     @ [NL] @ ''muzz -mq 900 414'' @ [NL]
     @ ''  Given the velocity and muzzle energy, it will return only the ''
     @ ''mass'' @ [NL] @ ''  of the projectile.'' @ [NL]
     @ [NL] @ ''muzz -t 230 860 .45'' @ [NL]
     @ ''  Prints result using Taylor Knockout Formula, with the params''
     @ '' being'' @ [NL] @ ''  the mass (grains), velocity (ft/s) and diameter'' @ [NL]
     @ [NL] @ ''muzz -ts 15 255 11.6'' @ [NL]
     @ ''  Same, but using Si units (grams, meters/second, mm)'' @ [NL]"

definition print_additional_help :: string where
  "print_additional_help =
     ''All units of measure are Imperial by default.  U-S-A!  U-S-A!'' @ [NL, NL]
     @ ''Weight:'' @ [NL]
     @ ''  Si:'' @ [TAB, TAB] @ ''Grams (g)'' @ [NL]
     @ ''  Imperial:'' @ [TAB] @ ''Grains (gr) (7000 per pound)'' @ [NL, NL]
     @ ''Velocity:'' @ [NL]
     @ ''  Si:'' @ [TAB, TAB] @ ''Meters per second (m/s)'' @ [NL]
     @ ''  Imperial:'' @ [TAB] @ ''Feet per second (ft/s)'' @ [NL, NL]
     @ ''Diameter:'' @ [NL]
     @ ''  Si:'' @ [TAB, TAB] @ ''Millimeters (mm)'' @ [NL]
     @ ''  Imperial:'' @ [TAB] @ ''Inch caliber (fractions of inch) (ex.: .45)'' @ [NL, NL]
     @ ''Energy:'' @ [NL]
     @ ''  Si:'' @ [TAB, TAB] @ ''Joules (J)'' @ [NL]
     @ ''  Imperial:'' @ [TAB] @ ''Foot-pounds (lbf)'' @ [NL, NL]
     @ [NL] @ ''To calculate the standard muzzle energy of a projectile:'' @ [NL, NL]
     @ ''  Si:'' @ [TAB, TAB] @ ''( 2 * mass * (velocity*velocity)) / K'' @ [NL]
     @ ''  Imperial:'' @ [TAB] @ ''( mass * (velocity*velocity)) / K'' @ [NL, NL]
     @ ''  Default values of K are 450240 (Imperial) or 1000 (Si).'' @ [NL]
     @ ''  To use different numbers to calculate K, use the '' @ [QUOTE] @ ''-c'' @ [QUOTE]
       @ '' or '' @ [QUOTE] @ ''-C'' @ [QUOTE] @ '' ''
     @ ''options:'' @ [NL]
     @ ''    -c:'' @ [TAB, TAB] @ ''K = 2 * 32.163 * 7000'' @ [NL]
     @ ''    -C:'' @ [TAB, TAB] @ ''K = 2 * 32.1739 * 7000'' @ [NL, NL]
     @ ''  You can also use the '' @ [QUOTE] @ ''-k'' @ [QUOTE]
       @ '' option to use a custom constant.'' @ [NL, NL]
     @ ''The Taylor Knockout Formula, if used, will return a number that'' @ [QUOTE] @ ''s''
     @ '' roughly the'' @ [NL]
     @ ''same regardless of whether or not the user chooses Si or ''
     @ ''Imperial units'' @ [NL]
     @ ''of measure.  The formula is as follows:'' @ [NL, NL]
     @ ''  Si:'' @ [TAB, TAB] @ ''( mass * velocity * diameter ) / 3500'' @ [NL]
     @ ''  Imperial:'' @ [TAB] @ ''( mass * velocity * diameter ) / 7000'' @ [NL, NL]"

definition print_version :: string where
  "print_version =
     ''muzz.c, version '' @ VERSION @ [NL]
     @ ''James Hendrie <hendrie.james@gmail.com>'' @ [NL]"


subsection \<open>atof\<close>

text \<open>
  \<open>atof(s)\<close> is \<open>strtod(s, NULL)\<close> in the C locale: white space is skipped, then an
  optional sign, then the longest prefix that is a decimal number (digits with an
  optional point and an optional exponent), a hexadecimal number (\<open>0x\<close>, hexadecimal
  digits with an optional point, an optional binary exponent), \<open>inf\<close> or \<open>nan\<close> in
  any letter case. \<open>strtod\<close> is \<open>None\<close> when there is no such prefix, and \<open>atof\<close> is
  then zero. The value is the double nearest to the number written (an infinity when it
  is too large), with the sign bit set after a minus sign.
\<close>

definition isspace :: "char \<Rightarrow> bool" where
  "isspace c = (c \<in> set [CHR '' '', CHR 0x09, CHR 0x0A, CHR 0x0B, CHR 0x0C, CHR 0x0D])"

definition isdigit :: "char \<Rightarrow> bool" where
  "isdigit c = (c \<in> set ''0123456789'')"

definition isxdigit :: "char \<Rightarrow> bool" where
  "isxdigit c = (c \<in> set ''0123456789abcdefABCDEF'')"

definition digit_val :: "char \<Rightarrow> nat" where
  "digit_val c =
     (if isdigit c then of_char c - 48
      else if c \<in> set ''abcdef'' then of_char c - 87
      else of_char c - 55)"

definition digits_val :: "nat \<Rightarrow> string \<Rightarrow> nat" where
  "digits_val base ds = foldl (\<lambda>n c. n * base + digit_val c) 0 ds"

text \<open>
  The digits before and after the point and the rest of the text; \<open>None\<close> when there
  is no digit at all.
\<close>

definition scan_mantissa :: "(char \<Rightarrow> bool) \<Rightarrow> string \<Rightarrow> (string \<times> string \<times> string) option" where
  "scan_mantissa isdig s =
     (let ip = takeWhile isdig s;
          r1 = dropWhile isdig s;
          (fp, r2) = (case r1 of
                        c # t \<Rightarrow> if c = CHR ''.'' then (takeWhile isdig t, dropWhile isdig t)
                                 else ([], r1)
                      | [] \<Rightarrow> ([], r1))
      in if ip = [] \<and> fp = [] then None else Some (ip, fp, r2))"

text \<open>
  The exponent: a letter of \<open>letters\<close>, an optional sign and at least one decimal digit;
  zero when the text does not start with one.
\<close>

definition scan_exponent :: "string \<Rightarrow> string \<Rightarrow> int" where
  "scan_exponent letters s =
     (case s of
        [] \<Rightarrow> 0
      | c # s1 \<Rightarrow>
          if c \<in> set letters then
            (let (neg, s2) = (case s1 of
                                [] \<Rightarrow> (False, s1)
                              | d # t \<Rightarrow> if d = CHR ''-'' then (True, t)
                                         else if d = CHR ''+'' then (False, t)
                                         else (False, s1));
                 ds = takeWhile isdigit s2
             in if ds = [] then 0
                else if neg then - int (digits_val 10 ds) else int (digits_val 10 ds))
          else 0)"

definition scale :: "real \<Rightarrow> int \<Rightarrow> real \<Rightarrow> real" where
  "scale b e x = (if 0 \<le> e then x * b ^ nat e else x / b ^ nat (- e))"

definition has_prefix_ci :: "string \<Rightarrow> string \<Rightarrow> string \<Rightarrow> bool" where
  "has_prefix_ci lower upper s =
     (length lower \<le> length s \<and>
      list_all (\<lambda>(c, l, u). c = l \<or> c = u) (zip s (zip lower upper)))"

definition strtod_unsigned :: "string \<Rightarrow> double option" where
  "strtod_unsigned s =
     (case (if has_prefix_ci ''0x'' ''0X'' s then scan_mantissa isxdigit (drop 2 s) else None) of
        Some (ip, fp, r) \<Rightarrow>
          Some (to_double (scale 2 (scan_exponent ''pP'' r)
                             (real (digits_val 16 (ip @ fp)) / 16 ^ length fp)))
      | None \<Rightarrow>
          (case scan_mantissa isdigit s of
             Some (ip, fp, r) \<Rightarrow>
               Some (to_double (scale 10 (scan_exponent ''eE'' r)
                                  (real (digits_val 10 (ip @ fp)) / 10 ^ length fp)))
           | None \<Rightarrow>
               if has_prefix_ci ''inf'' ''INF'' s then Some PInf
               else if has_prefix_ci ''nan'' ''NAN'' s then Some NaN
               else None))"

definition strtod :: "string \<Rightarrow> double option" where
  "strtod s =
     (case dropWhile isspace s of
        [] \<Rightarrow> None
      | c # t \<Rightarrow>
          if c = CHR ''-'' then map_option dneg (strtod_unsigned t)
          else if c = CHR ''+'' then strtod_unsigned t
          else strtod_unsigned (c # t))"

definition atof :: "string \<Rightarrow> double" where
  "atof s = (case strtod s of None \<Rightarrow> Fin 0 | Some v \<Rightarrow> v)"

subsection \<open>getopt\<close>

text \<open>
  \<open>getopt\<close> of \<open>unistd.h\<close>, for an option string without optional arguments and without
  a leading \<open>+\<close>, \<open>-\<close> or \<open>:\<close>, as \<open>optString\<close> is. Its state: \<open>nextchar\<close>, the option
  characters of the current element still to be returned; \<open>unscanned\<close>, the elements
  of \<open>argv\<close> after the current one; \<open>nonopts\<close>, the operands stepped over so far. When
  \<open>getopt\<close> returns -1, \<open>argv[optind], ..., argv[argc - 1]\<close> are \<open>nonopts @ unscanned\<close>.

  With \<open>posixly_correct\<close> the scan stops at the first operand, as POSIX says; without
  it operands are stepped over and moved behind the options, as the GNU C library does
  unless the environment sets \<open>POSIXLY_CORRECT\<close>. An element is an operand when it does
  not start with \<open>-\<close> or is \<open>-\<close> alone; \<open>--\<close> ends the options in both modes.

  \<open>opterr\<close> is never cleared by the program, so \<open>getopt\<close> writes a diagnostic to the
  error stream when it returns \<open>?\<close>. Its wording belongs to the C library: the model
  records which diagnostic, not the text.
\<close>

datatype getopt_diag = Invalid_option char | Missing_argument char

record getopt_state =
  nextchar :: string
  unscanned :: "string list"
  nonopts :: "string list"

text \<open>What one call gives: the value returned (\<open>None\<close> for -1), \<open>optarg\<close>, the diagnostics.\<close>

type_synonym getopt_ret = "char option \<times> string option \<times> getopt_diag list"

fun lookup_opt :: "string \<Rightarrow> char \<Rightarrow> bool option" where
  "lookup_opt [] c = None"
| "lookup_opt (x # xs) c =
     (if x = c then Some (case xs of [] \<Rightarrow> False | y # _ \<Rightarrow> y = CHR '':'')
      else lookup_opt xs c)"

definition opt_kind :: "string \<Rightarrow> char \<Rightarrow> bool option" where
  "opt_kind optstring c = (if c = CHR '':'' then None else lookup_opt optstring c)"

definition is_option_element :: "string \<Rightarrow> bool" where
  "is_option_element a = (case a of c # _ # _ \<Rightarrow> c = CHR ''-'' | _ \<Rightarrow> False)"

definition take_option :: "string \<Rightarrow> char \<Rightarrow> string \<Rightarrow> getopt_state \<Rightarrow> getopt_ret \<times> getopt_state" where
  "take_option optstring c cs st =
     (case opt_kind optstring c of
        None \<Rightarrow> ((Some (CHR ''?''), None, [Invalid_option c]), st\<lparr>nextchar := cs\<rparr>)
      | Some False \<Rightarrow> ((Some c, None, []), st\<lparr>nextchar := cs\<rparr>)
      | Some True \<Rightarrow>
          if cs \<noteq> [] then ((Some c, Some cs, []), st\<lparr>nextchar := []\<rparr>)
          else (case unscanned st of
                  [] \<Rightarrow> ((Some (CHR ''?''), None, [Missing_argument c]), st\<lparr>nextchar := []\<rparr>)
                | a # rest \<Rightarrow>
                    ((Some c, Some a, []), st\<lparr>nextchar := [], unscanned := rest\<rparr>)))"

definition getopt :: "bool \<Rightarrow> string \<Rightarrow> getopt_state \<Rightarrow> getopt_ret \<times> getopt_state" where
  "getopt posixly_correct optstring st =
     (case nextchar st of
        c # cs \<Rightarrow> take_option optstring c cs st
      | [] \<Rightarrow>
          (let skipped = (if posixly_correct then []
                          else takeWhile (\<lambda>a. \<not> is_option_element a) (unscanned st));
               st1 = st\<lparr>nonopts := nonopts st @ skipped\<rparr>
           in case drop (length skipped) (unscanned st) of
                [] \<Rightarrow> ((None, None, []), st1\<lparr>unscanned := []\<rparr>)
              | a # rest \<Rightarrow>
                  if a = ''--'' then ((None, None, []), st1\<lparr>unscanned := rest\<rparr>)
                  else if is_option_element a
                  then take_option optstring (a ! 1) (drop 2 a) (st1\<lparr>unscanned := rest\<rparr>)
                  else ((None, None, []), st1\<lparr>unscanned := a # rest\<rparr>)))"

definition getopt_size :: "getopt_state \<Rightarrow> nat" where
  "getopt_size st = length (nextchar st) + sum_list (map (\<lambda>a. Suc (length a)) (unscanned st))"

subsection \<open>main\<close>

text \<open>
  What a run leaves behind: the exit status, the text written to standard output, the
  text the program wrote to the error stream, the diagnostics \<open>getopt\<close> wrote there
  before it, and the global \<open>K\<close>.
\<close>

record outcome =
  exit_code :: int
  out :: string
  err :: string
  libc_diag :: "getopt_diag list"
  global_K :: double

text \<open>The variables the option loop of \<open>main\<close> writes.\<close>

record main_state =
  st_options :: options
  st_valueWanted :: int
  st_K :: double
  st_getopt :: getopt_state
  st_diag :: "getopt_diag list"

text \<open>
  The cases of the \<open>switch\<close> that do not return. Only \<open>k\<close> reads \<open>optarg\<close>; \<open>atof\<close> of a
  null pointer is a fault, \<open>None\<close>. A character without a case changes nothing.
\<close>

definition switch_opt :: "char \<Rightarrow> string option \<Rightarrow> main_state \<Rightarrow> main_state option" where
  "switch_opt opt optarg st =
     (if opt = CHR ''S'' \<or> opt = CHR ''q'' then
        Some (st\<lparr>st_options := (st_options st)(OPT_VERBOSE := -1)\<rparr>)
      else if opt = CHR ''s'' then Some (st\<lparr>st_options := (st_options st)(OPT_SI := 1)\<rparr>)
      else if opt = CHR ''i'' then Some (st\<lparr>st_options := (st_options st)(OPT_SI := -1)\<rparr>)
      else if opt = CHR ''m'' then Some (st\<lparr>st_valueWanted := PARAM_MASS\<rparr>)
      else if opt = CHR ''v'' then Some (st\<lparr>st_valueWanted := PARAM_VELOCITY\<rparr>)
      else if opt = CHR ''e'' then Some (st\<lparr>st_valueWanted := PARAM_ENERGY\<rparr>)
      else if opt = CHR ''c'' then Some (st\<lparr>st_options := (st_options st)(OPT_K := 1)\<rparr>)
      else if opt = CHR ''C'' then Some (st\<lparr>st_options := (st_options st)(OPT_K := 2)\<rparr>)
      else if opt = CHR ''k'' then
        (case optarg of
           None \<Rightarrow> None
         | Some a \<Rightarrow> Some (st\<lparr>st_options := (st_options st)(OPT_K := 0), st_K := atof a\<rparr>))
      else if opt = CHR ''K'' then Some (st\<lparr>st_options := (st_options st)(OPT_K := -1)\<rparr>)
      else if opt = CHR ''p'' then Some (st\<lparr>st_options := (st_options st)(OPT_PRECISE := 1)\<rparr>)
      else if opt = CHR ''t'' then Some (st\<lparr>st_options := (st_options st)(OPT_TKOF := 1)\<rparr>)
      else Some st)"

lemma switch_opt_getopt: "switch_opt opt optarg st = Some st' \<Longrightarrow> st_getopt st' = st_getopt st"
  by (auto simp: switch_opt_def split: if_splits option.splits)

text \<open>The text of an informational option, \<open>None\<close> for any other character.\<close>

definition info_text :: "char \<Rightarrow> string option" where
  "info_text opt =
     (if opt = CHR ''h'' then Some print_help
      else if opt = CHR ''V'' then Some print_version
      else if opt = CHR ''H'' then Some print_additional_help
      else if opt = CHR ''E'' then Some print_examples
      else None)"

definition finish :: "main_state \<Rightarrow> int \<Rightarrow> string \<Rightarrow> string \<Rightarrow> outcome" where
  "finish st code stdout_text stderr_text =
     \<lparr>exit_code = code, out = stdout_text, err = stderr_text,
      libc_diag = st_diag st, global_K = st_K st\<rparr>"

lemma take_option_size:
  "take_option optstring c cs st = (r, st') \<Longrightarrow> nextchar st = [] \<Longrightarrow>
     getopt_size st' \<le> length cs + getopt_size st"
  by (auto simp: take_option_def getopt_size_def split: option.splits bool.splits if_splits list.splits)

lemma sum_list_drop_takeWhile_le:
  "sum_list (map f (drop (length (takeWhile P xs)) xs)) \<le> sum_list (map f xs)" for f :: "'a \<Rightarrow> nat"
  by (induction xs) auto

lemma getopt_size_decreases:
  assumes "getopt pc optstring st = ((Some c, oa, d), st')"
  shows "getopt_size st' < getopt_size st"
proof (cases "nextchar st")
  case (Cons x xs)
  with assms have "take_option optstring x xs st = ((Some c, oa, d), st')"
    by (simp add: getopt_def)
  with Cons show ?thesis
    by (auto simp: take_option_def getopt_size_def
        split: option.splits bool.splits if_splits list.splits)
next
  case Nil
  define skipped where
    "skipped = (if pc then [] else takeWhile (\<lambda>a. \<not> is_option_element a) (unscanned st))"
  define st1 where "st1 = st\<lparr>nonopts := nonopts st @ skipped\<rparr>"
  have le: "sum_list (map (\<lambda>a. Suc (length a)) (drop (length skipped) (unscanned st)))
              \<le> sum_list (map (\<lambda>a. Suc (length a)) (unscanned st))"
    unfolding skipped_def by (simp add: sum_list_drop_takeWhile_le)
  from assms Nil obtain a rest where
    dr: "drop (length skipped) (unscanned st) = a # rest" and
    el: "is_option_element a" and
    tk: "take_option optstring (a ! 1) (drop 2 a) (st1\<lparr>unscanned := rest\<rparr>) = ((Some c, oa, d), st')"
    by (auto simp: getopt_def Let_def skipped_def st1_def split: list.splits if_splits)
  from el have len: "2 \<le> length a"
    by (auto simp: is_option_element_def split: list.splits)
  have "getopt_size st' \<le> length (drop 2 a) + getopt_size (st1\<lparr>unscanned := rest\<rparr>)"
    using take_option_size [OF tk] Nil by (simp add: st1_def)
  also have "\<dots> < sum_list (map (\<lambda>a. Suc (length a)) (a # rest))"
    using len Nil by (simp add: getopt_size_def st1_def)
  also have "\<dots> \<le> getopt_size st"
    using le dr by (simp add: getopt_size_def)
  finally show ?thesis .
qed

text \<open>
  The \<open>while\<close> loop around \<open>getopt\<close>: an informational option returns from \<open>main\<close>
  (\<open>Inl\<close>), the end of the options leaves the loop (\<open>Inr\<close>).
\<close>

function getopt_loop :: "bool \<Rightarrow> main_state \<Rightarrow> (outcome + main_state) option" where
  "getopt_loop posixly_correct st =
     (case getopt posixly_correct optString (st_getopt st) of
        ((None, optarg, d), g) \<Rightarrow> Some (Inr (st\<lparr>st_getopt := g, st_diag := st_diag st @ d\<rparr>))
      | ((Some opt, optarg, d), g) \<Rightarrow>
          (let st1 = st\<lparr>st_getopt := g, st_diag := st_diag st @ d\<rparr>
           in case info_text opt of
                Some text \<Rightarrow> Some (Inl (finish st1 0 text []))
              | None \<Rightarrow>
                  (case switch_opt opt optarg st1 of
                     None \<Rightarrow> None
                   | Some st2 \<Rightarrow> getopt_loop posixly_correct st2)))"
  by pat_completeness auto
termination
  apply (relation "measure (\<lambda>(pc, st). getopt_size (st_getopt st))")
   apply simp
  apply clarsimp
  apply (frule switch_opt_getopt)
  apply (drule getopt_size_decreases [OF sym])
  apply simp
  done

declare getopt_loop.simps [simp del]

text \<open>
  After the loop \<open>main\<close> moves \<open>argv\<close> by \<open>optind - 1\<close>: from then on \<open>argv[i]\<close> for
  \<open>1 \<le> i < argc\<close> is the operand \<open>i - 1\<close>, and \<open>argv[argc]\<close> is the null pointer.
\<close>

definition atof_argv :: "string list \<Rightarrow> nat \<Rightarrow> double option" where
  "atof_argv operands i =
     (if 1 \<le> i \<and> i \<le> length operands then Some (atof (operands ! (i - 1))) else None)"

definition usage_error :: "main_state \<Rightarrow> string \<Rightarrow> outcome" where
  "usage_error st message =
     finish st 1 [] (message @ print_usage @ [NL] @ ''To view help, run with -h argument.'' @ [NL])"

text \<open>
  The state before the first statement of the loop: every option is -1 but
  \<open>OPT_VERBOSE\<close>, the global \<open>K\<close> is zero as every C global without an initialiser
  is, and \<open>optind\<close> is 1.
\<close>

definition getopt_init :: "string list \<Rightarrow> getopt_state" where
  "getopt_init argv = \<lparr>nextchar = [], unscanned = drop 1 argv, nonopts = []\<rparr>"

definition init_state :: "string list \<Rightarrow> main_state" where
  "init_state argv =
     \<lparr>st_options = (\<lambda>i. -1)(OPT_VERBOSE := 1),
      st_valueWanted = PARAM_ENERGY,
      st_K = Fin 0,
      st_getopt = getopt_init argv,
      st_diag = []\<rparr>"

text \<open>
  The rest of \<open>main\<close>, from the adjustment of \<open>argc\<close> and \<open>argv\<close> on. \<open>None\<close> is
  \<open>atof\<close> of a null pointer.
\<close>

definition compute :: "main_state \<Rightarrow> string list \<Rightarrow> double \<Rightarrow> double \<Rightarrow> double \<Rightarrow> double \<Rightarrow> outcome option" where
  "compute st operands mass velocity diameter energy =
     (let options = st_options st; valueWanted = st_valueWanted st
      in if options OPT_TKOF = -1 then
           do {
             (mass, velocity, energy) \<leftarrow>
               (if valueWanted = PARAM_ENERGY then
                  do { m \<leftarrow> atof_argv operands 1; v \<leftarrow> atof_argv operands 2;
                       Some (m, v, energy) }
                else if valueWanted = PARAM_MASS then
                  do { v \<leftarrow> atof_argv operands 1; e \<leftarrow> atof_argv operands 2;
                       Some (mass, v, e) }
                else if valueWanted = PARAM_VELOCITY then
                  do { m \<leftarrow> atof_argv operands 1; e \<leftarrow> atof_argv operands 2;
                       Some (m, velocity, e) }
                else Some (mass, velocity, energy));
             let (text, K) = result (st_K st) mass velocity energy valueWanted options;
             Some (finish (st\<lparr>st_K := K\<rparr>) 0 text [])
           }
         else Some (finish st 0 (tkof mass velocity diameter options) []))"

definition after_options :: "main_state \<Rightarrow> outcome option" where
  "after_options st =
     (let operands = nonopts (st_getopt st) @ unscanned (st_getopt st);
          argc = 1 + int (length operands);
          options = st_options st
      in if argc > 1 then
           (if argc = 2 then
              Some (usage_error st (''ERROR:  Need more than one parameter'' @ [NL]))
            else if options OPT_TKOF = 1 then
              (if argc \<le> 3 then
                 Some (usage_error st
                   (''ERROR:  The Taylor Knockout Formula requires '' @ ''three paramters:'' @ [NL]
                    @ ''Mass, Velocity and Diameter of projectile'' @ [NL]))
               else
                 do { mass \<leftarrow> atof_argv operands 1;
                      velocity \<leftarrow> atof_argv operands 2;
                      diameter \<leftarrow> atof_argv operands 3;
                      compute st operands mass velocity diameter (Fin (-1)) })
            else
              do { mass \<leftarrow> atof_argv operands 1;
                   velocity \<leftarrow> atof_argv operands 2;
                   compute st operands mass velocity (Fin (-1)) (Fin (-1)) })
         else Some (usage_error st (''ERROR:  Parameters required'' @ [NL])))"

text \<open>
  \<open>main\<close>: \<open>argv\<close> is the argument vector with the program name first, \<open>argc\<close> its
  length. \<open>None\<close> is a fault (a null pointer passed to \<open>atof\<close>).
\<close>

definition main :: "bool \<Rightarrow> string list \<Rightarrow> outcome option" where
  "main posixly_correct argv =
     (if int (length argv) < 2 then
        Some (usage_error (init_state argv) (''ERROR:  Too few arguments'' @ [NL]))
      else
        (case getopt_loop posixly_correct (init_state argv) of
           None \<Rightarrow> None
         | Some (Inl outcome) \<Rightarrow> Some outcome
         | Some (Inr st) \<Rightarrow> after_options st))"

subsection \<open>What getopt returns for a command line\<close>

text \<open>
  The calls of \<open>getopt\<close> up to the one that returns -1, whatever \<open>main\<close> does between
  them; \<open>flags\<close> are the characters returned with their \<open>optarg\<close>, \<open>operands\<close> the
  elements \<open>argv[optind..]\<close> left when \<open>getopt\<close> returns -1.
\<close>

function getopt_trace :: "bool \<Rightarrow> getopt_state \<Rightarrow> (getopt_ret \<times> getopt_state) list" where
  "getopt_trace posixly_correct g =
     (case getopt posixly_correct optString g of
        ((None, optarg, d), g') \<Rightarrow> [((None, optarg, d), g')]
      | ((Some c, optarg, d), g') \<Rightarrow> ((Some c, optarg, d), g') # getopt_trace posixly_correct g')"
  by pat_completeness auto
termination
  apply (relation "measure (\<lambda>(pc, g). getopt_size g)")
   apply simp
  apply clarsimp
  apply (drule getopt_size_decreases [OF sym])
  apply simp
  done

declare getopt_trace.simps [simp del]

definition returned :: "(getopt_ret \<times> getopt_state) list \<Rightarrow> (char \<times> string option) list" where
  "returned tr = List.map_filter (\<lambda>((ret, optarg, d), g). map_option (\<lambda>c. (c, optarg)) ret) tr"

definition left_over :: "(getopt_ret \<times> getopt_state) list \<Rightarrow> string list" where
  "left_over tr = (let g = snd (last tr) in nonopts g @ unscanned g)"

definition flags :: "bool \<Rightarrow> string list \<Rightarrow> (char \<times> string option) list" where
  "flags posixly_correct argv = returned (getopt_trace posixly_correct (getopt_init argv))"

definition operands :: "bool \<Rightarrow> string list \<Rightarrow> string list" where
  "operands posixly_correct argv = left_over (getopt_trace posixly_correct (getopt_init argv))"

text \<open>The argument of the last \<open>-k\<close> among the flags.\<close>

fun custom_constant :: "(char \<times> string option) list \<Rightarrow> string option" where
  "custom_constant [] = None"
| "custom_constant ((c, optarg) # fs) =
     (case custom_constant fs of
        Some a \<Rightarrow> Some a
      | None \<Rightarrow> if c = CHR ''k'' then optarg else None)"

definition informational :: "char \<times> string option \<Rightarrow> bool" where
  "informational f = (info_text (fst f) \<noteq> None)"

section \<open>Facts about the option loop\<close>

lemma opt_kind_k: "opt_kind optString (CHR ''k'') = Some True"
  by (simp add: opt_kind_def optString_def)

lemma take_option_k_arg:
  assumes "take_option optString c cs st = ((Some (CHR ''k''), oa, d), st')"
  shows "\<exists>a. oa = Some a"
proof (cases "opt_kind optString c")
  case None
  with assms show ?thesis by (simp add: take_option_def)
next
  case (Some b)
  show ?thesis
  proof (cases b)
    case True
    with Some assms show ?thesis
      by (auto simp: take_option_def split: if_splits list.splits)
  next
    case False
    with Some assms have "c = CHR ''k''" by (simp add: take_option_def)
    with Some False opt_kind_k show ?thesis by simp
  qed
qed

lemma getopt_k_arg:
  assumes "getopt pc optString g = ((Some (CHR ''k''), oa, d), g')"
  shows "\<exists>a. oa = Some a"
proof (cases "nextchar g")
  case (Cons c cs)
  with assms show ?thesis
    by (auto simp: getopt_def dest: take_option_k_arg)
next
  case Nil
  with assms show ?thesis
    by (auto simp: getopt_def Let_def split: list.splits if_splits dest: take_option_k_arg)
qed

lemma switch_opt_Some:
  "(opt = CHR ''k'' \<Longrightarrow> optarg \<noteq> None) \<Longrightarrow> \<exists>st'. switch_opt opt optarg st = Some st'"
  by (auto simp: switch_opt_def)


lemma getopt_loop_induct [case_names step]:
  assumes "\<And>pc st. (\<And>c oa d g st2.
              getopt pc optString (st_getopt st) = ((Some c, oa, d), g) \<Longrightarrow>
              info_text c = None \<Longrightarrow>
              switch_opt c oa (st\<lparr>st_getopt := g, st_diag := st_diag st @ d\<rparr>) = Some st2 \<Longrightarrow>
              P pc st2) \<Longrightarrow> P pc st"
  shows "P pc st"
proof (induction pc st rule: getopt_loop.induct)
  case (1 pc st)
  show ?case
  proof (rule assms)
    fix c oa d g st2
    assume a: "getopt pc optString (st_getopt st) = ((Some c, oa, d), g)"
      and b: "info_text c = None"
      and c: "switch_opt c oa (st\<lparr>st_getopt := g, st_diag := st_diag st @ d\<rparr>) = Some st2"
    show "P pc st2"
      by (rule "1.IH" [OF a [symmetric] refl refl refl refl b c])
  qed
qed

lemma getopt_loop_end:
  "getopt pc optString (st_getopt st) = ((None, oa, d), g) \<Longrightarrow>
     getopt_loop pc st = Some (Inr (st\<lparr>st_getopt := g, st_diag := st_diag st @ d\<rparr>))"
  by (subst getopt_loop.simps) simp

lemma getopt_loop_info:
  "getopt pc optString (st_getopt st) = ((Some c, oa, d), g) \<Longrightarrow> info_text c = Some t \<Longrightarrow>
     getopt_loop pc st = Some (Inl (finish (st\<lparr>st_getopt := g, st_diag := st_diag st @ d\<rparr>) 0 t []))"
  by (subst getopt_loop.simps) simp

lemma getopt_loop_step:
  "getopt pc optString (st_getopt st) = ((Some c, oa, d), g) \<Longrightarrow> info_text c = None \<Longrightarrow>
     switch_opt c oa (st\<lparr>st_getopt := g, st_diag := st_diag st @ d\<rparr>) = Some st2 \<Longrightarrow>
     getopt_loop pc st = getopt_loop pc st2"
  by (subst getopt_loop.simps) simp

lemma getopt_cases [case_names End Info Step]:
  obtains oa d g where "getopt pc optString (st_getopt st) = ((None, oa, d), g)"
  | c oa d g t where "getopt pc optString (st_getopt st) = ((Some c, oa, d), g)" "info_text c = Some t"
  | c oa d g st2 where "getopt pc optString (st_getopt st) = ((Some c, oa, d), g)" "info_text c = None"
      "switch_opt c oa (st\<lparr>st_getopt := g, st_diag := st_diag st @ d\<rparr>) = Some st2"
proof -
  obtain ret oa d g where g: "getopt pc optString (st_getopt st) = ((ret, oa, d), g)"
    by (cases "getopt pc optString (st_getopt st)") auto
  show thesis
  proof (cases ret)
    case None
    with g that(1) show ?thesis by blast
  next
    case (Some c)
    show ?thesis
    proof (cases "info_text c")
      case (Some t)
      with g \<open>ret = Some c\<close> that(2) show ?thesis by blast
    next
      case None
      have "c = CHR ''k'' \<Longrightarrow> oa \<noteq> None"
        using g \<open>ret = Some c\<close> getopt_k_arg [of pc "st_getopt st" oa d g] by auto
      then obtain st2 where "switch_opt c oa (st\<lparr>st_getopt := g, st_diag := st_diag st @ d\<rparr>) = Some st2"
        using switch_opt_Some by blast
      with g \<open>ret = Some c\<close> None that(3) show ?thesis by blast
    qed
  qed
qed

lemma getopt_loop_no_fault: "getopt_loop pc st \<noteq> None"
proof (induction pc st rule: getopt_loop_induct)
  case (step pc st)
  show ?case
  proof (cases pc st rule: getopt_cases)
    case End
    then show ?thesis by (simp add: getopt_loop_end)
  next
    case Info
    then show ?thesis by (simp add: getopt_loop_info)
  next
    case Step
    then show ?thesis using step by (simp add: getopt_loop_step)
  qed
qed


lemma getopt_trace_end:
  "getopt pc optString g = ((None, oa, d), g') \<Longrightarrow> getopt_trace pc g = [((None, oa, d), g')]"
  by (subst getopt_trace.simps) simp

lemma getopt_trace_step:
  "getopt pc optString g = ((Some c, oa, d), g') \<Longrightarrow>
     getopt_trace pc g = ((Some c, oa, d), g') # getopt_trace pc g'"
  by (subst getopt_trace.simps) simp

lemma getopt_trace_nonempty: "getopt_trace pc g \<noteq> []"
  by (subst getopt_trace.simps) (simp split: prod.splits option.splits)

lemma returned_end: "returned [((None, oa, d), g)] = []"
  by (simp add: returned_def List.map_filter_simps)

lemma returned_step: "returned (((Some c, oa, d), g) # tr) = (c, oa) # returned tr"
  by (simp add: returned_def List.map_filter_simps)

lemma left_over_end: "left_over [(r, g)] = nonopts g @ unscanned g"
  by (simp add: left_over_def)

lemma left_over_step: "tr \<noteq> [] \<Longrightarrow> left_over (x # tr) = left_over tr"
  by (simp add: left_over_def)

lemmas trace_simps = getopt_trace_end getopt_trace_step returned_end returned_step
  left_over_end left_over_step getopt_trace_nonempty

lemma switch_opt_fields:
  assumes "switch_opt c oa st = Some st'"
  shows "st_diag st' = st_diag st"
    and "st_options st' OPT_TKOF = (if c = CHR ''t'' then 1 else st_options st OPT_TKOF)"
    and "st_K st' = (if c = CHR ''k'' then atof (the oa) else st_K st)"
    and "c = CHR ''k'' \<Longrightarrow> st_options st' OPT_K = 0"
    and "st_options st OPT_K \<in> {-1, 0, 1, 2} \<Longrightarrow> st_options st' OPT_K \<in> {-1, 0, 1, 2}"
    and "st_options st' OPT_K = 0 \<Longrightarrow> c \<noteq> CHR ''k'' \<Longrightarrow> st_options st OPT_K = 0"
    and "st_valueWanted st \<in> {PARAM_MASS, PARAM_VELOCITY, PARAM_ENERGY} \<Longrightarrow>
           st_valueWanted st' \<in> {PARAM_MASS, PARAM_VELOCITY, PARAM_ENERGY}"
    and "st_options st OPT_TKOF \<in> {-1, 1} \<Longrightarrow> st_options st' OPT_TKOF \<in> {-1, 1}"
  using assms by (auto simp: switch_opt_def split: if_splits option.splits)

text \<open>An informational flag among those getopt returns ends the run in the loop.\<close>

lemma getopt_loop_finds_info:
  "find informational (returned (getopt_trace pc (st_getopt st))) = Some (c, optarg) \<Longrightarrow>
     \<exists>st1 t. info_text c = Some t \<and> getopt_loop pc st = Some (Inl (finish st1 0 t []))"
proof (induction pc st rule: getopt_loop_induct)
  case (step pc st)
  show ?case
  proof (cases pc st rule: getopt_cases)
    case (End oa d g)
    with step.prems show ?thesis by (simp add: trace_simps)
  next
    case (Info c' oa d g t)
    then have "informational (c', oa)" by (simp add: informational_def)
    with Info step.prems have "c' = c" by (simp add: trace_simps)
    with Info show ?thesis by (auto simp: getopt_loop_info)
  next
    case (Step c' oa d g st2)
    then have "st_getopt st2 = g" and "\<not> informational (c', oa)"
      by (auto dest: switch_opt_getopt simp: informational_def)
    with Step step.prems
    have "find informational (returned (getopt_trace pc (st_getopt st2))) = Some (c, optarg)"
      by (simp add: trace_simps)
    from step.IH [OF Step this] Step show ?thesis by (simp add: getopt_loop_step)
  qed
qed

text \<open>Without one the loop ends when getopt returns -1, and conversely.\<close>

lemma getopt_loop_completes:
  "\<forall>f \<in> set (returned (getopt_trace pc (st_getopt st))). \<not> informational f \<Longrightarrow>
     \<exists>st'. getopt_loop pc st = Some (Inr st')"
proof (induction pc st rule: getopt_loop_induct)
  case (step pc st)
  show ?case
  proof (cases pc st rule: getopt_cases)
    case (End oa d g)
    then show ?thesis by (simp add: getopt_loop_end)
  next
    case (Info c' oa d g t)
    then have "informational (c', oa)" by (simp add: informational_def)
    with Info step.prems show ?thesis by (simp add: trace_simps)
  next
    case (Step c' oa d g st2)
    then have "st_getopt st2 = g" by (auto dest: switch_opt_getopt)
    with Step step.prems
    have "\<forall>f \<in> set (returned (getopt_trace pc (st_getopt st2))). \<not> informational f"
      by (simp add: trace_simps)
    from step.IH [OF Step this] Step show ?thesis by (simp add: getopt_loop_step)
  qed
qed

text \<open>
  What the loop leaves in \<open>options\<close>, \<open>valueWanted\<close> and \<open>K\<close> depends on the flags
  only: it is \<open>apply_flags\<close> of them.
\<close>

definition core :: "main_state \<Rightarrow> options \<times> int \<times> double" where
  "core st = (st_options st, st_valueWanted st, st_K st)"

fun apply_flags :: "(char \<times> string option) list \<Rightarrow> main_state \<Rightarrow> main_state" where
  "apply_flags [] st = st"
| "apply_flags ((c, optarg) # fs) st =
     apply_flags fs (case switch_opt c optarg st of Some st' \<Rightarrow> st' | None \<Rightarrow> st)"

lemma switch_opt_cong:
  assumes "core s = core t"
  shows "map_option core (switch_opt c oa s) = map_option core (switch_opt c oa t)"
proof -
  from assms have "st_options s = st_options t" "st_valueWanted s = st_valueWanted t" "st_K s = st_K t"
    by (simp_all add: core_def)
  then show ?thesis
    by (simp add: switch_opt_def core_def split: option.splits)
qed

lemma switch_opt_core:
  assumes "switch_opt c oa s = Some s'" and "core s = core t"
  shows "\<exists>t'. switch_opt c oa t = Some t' \<and> core s' = core t'"
proof -
  from switch_opt_cong [OF assms(2), of c oa] assms(1)
  have "map_option core (switch_opt c oa t) = Some (core s')" by simp
  then show ?thesis by (cases "switch_opt c oa t") auto
qed

lemma core_update [simp]: "core (st\<lparr>st_getopt := g, st_diag := d\<rparr>) = core st"
  by (simp add: core_def)

lemma getopt_loop_core:
  "getopt_loop pc st = Some (Inr st') \<Longrightarrow> core st = core s0 \<Longrightarrow>
     core st' = core (apply_flags (returned (getopt_trace pc (st_getopt st))) s0)"
proof (induction pc st arbitrary: s0 rule: getopt_loop_induct)
  case (step pc st)
  show ?case
  proof (cases pc st rule: getopt_cases)
    case (End oa d g)
    with step.prems show ?thesis by (auto simp: getopt_loop_end trace_simps)
  next
    case (Info c' oa d g t)
    with step.prems show ?thesis by (simp add: getopt_loop_info)
  next
    case (Step c oa d g st2)
    from Step have g: "st_getopt st2 = g" by (auto dest: switch_opt_getopt)
    from Step step.prems have loop2: "getopt_loop pc st2 = Some (Inr st')"
      by (simp add: getopt_loop_step)
    have "core (st\<lparr>st_getopt := g, st_diag := st_diag st @ d\<rparr>) = core s0"
      using step.prems by simp
    from switch_opt_core [OF Step(3) this]
    obtain t' where t': "switch_opt c oa s0 = Some t'" "core st2 = core t'" by blast
    have "core st' = core (apply_flags (returned (getopt_trace pc (st_getopt st2))) t')"
      by (rule step.IH [OF Step loop2 t'(2)])
    with g t'(1) Step(1) show ?thesis by (simp add: trace_simps)
  qed
qed

lemma getopt_loop_left_over:
  "getopt_loop pc st = Some (Inr st') \<Longrightarrow>
     nonopts (st_getopt st') @ unscanned (st_getopt st') = left_over (getopt_trace pc (st_getopt st))"
proof (induction pc st rule: getopt_loop_induct)
  case (step pc st)
  show ?case
  proof (cases pc st rule: getopt_cases)
    case (End oa d g)
    with step.prems show ?thesis by (auto simp: getopt_loop_end trace_simps)
  next
    case (Info c' oa d g t)
    with step.prems show ?thesis by (simp add: getopt_loop_info)
  next
    case (Step c oa d g st2)
    from Step have g: "st_getopt st2 = g" by (auto dest: switch_opt_getopt)
    from Step step.prems have loop2: "getopt_loop pc st2 = Some (Inr st')"
      by (simp add: getopt_loop_step)
    from step.IH [OF Step loop2] g Step(1) show ?thesis by (simp add: trace_simps)
  qed
qed

lemma getopt_loop_no_info:
  "getopt_loop pc st = Some (Inr st') \<Longrightarrow>
     \<forall>f \<in> set (returned (getopt_trace pc (st_getopt st))). \<not> informational f"
proof (induction pc st rule: getopt_loop_induct)
  case (step pc st)
  show ?case
  proof (cases pc st rule: getopt_cases)
    case (End oa d g)
    with step.prems show ?thesis by (auto simp: getopt_loop_end trace_simps)
  next
    case (Info c' oa d g t)
    with step.prems show ?thesis by (simp add: getopt_loop_info)
  next
    case (Step c oa d g st2)
    from Step have g: "st_getopt st2 = g" and ni: "\<not> informational (c, oa)"
      by (auto dest: switch_opt_getopt simp: informational_def)
    from Step step.prems have loop2: "getopt_loop pc st2 = Some (Inr st')"
      by (simp add: getopt_loop_step)
    from step.IH [OF Step loop2] g ni Step(1) show ?thesis by (simp add: trace_simps)
  qed
qed

text \<open>The flags getopt returns give \<open>-k\<close> its argument.\<close>

lemma returned_k_arg:
  "(CHR ''k'', oa) \<in> set (returned (getopt_trace pc g)) \<Longrightarrow> \<exists>a. oa = Some a"
proof (induction pc g rule: getopt_trace.induct)
  case (1 pc g)
  obtain ret oa' d g' where G: "getopt pc optString g = ((ret, oa', d), g')"
    by (cases "getopt pc optString g") auto
  show ?case
  proof (cases ret)
    case None
    with G "1.prems" show ?thesis by (simp add: trace_simps)
  next
    case (Some c)
    with G "1.prems" have "(CHR ''k'', oa) = (c, oa') \<or> (CHR ''k'', oa) \<in> set (returned (getopt_trace pc g'))"
      by (simp add: trace_simps)
    then show ?thesis
    proof
      assume "(CHR ''k'', oa) = (c, oa')"
      with G Some show ?thesis using getopt_k_arg [of pc g oa' d g'] by simp
    next
      assume "(CHR ''k'', oa) \<in> set (returned (getopt_trace pc g'))"
      then show ?thesis
        using "1.IH" [OF G [symmetric] refl _ refl, of c] Some by simp
    qed
  qed
qed

subsection \<open>The fields after a list of flags\<close>

lemma switch_opt_total:
  "(case switch_opt c oa st of Some st' \<Rightarrow> st' | None \<Rightarrow> st) = st'
     \<Longrightarrow> (c = CHR ''k'' \<longrightarrow> oa \<noteq> None) \<Longrightarrow> switch_opt c oa st = Some st'"
  using switch_opt_Some [of c oa st] by auto

lemma apply_flags_TKOF:
  "st_options (apply_flags fs st) OPT_TKOF =
     (if CHR ''t'' \<in> fst ` set fs then 1 else st_options st OPT_TKOF)"
proof (induction fs arbitrary: st)
  case Nil
  show ?case by simp
next
  case (Cons f fs)
  obtain c oa where f: "f = (c, oa)" by (cases f)
  define st1 where "st1 = (case switch_opt c oa st of Some st' \<Rightarrow> st' | None \<Rightarrow> st)"
  have "st_options st1 OPT_TKOF = (if c = CHR ''t'' then 1 else st_options st OPT_TKOF)"
    unfolding st1_def by (auto simp: switch_opt_def split: option.splits)
  with Cons [of st1] f show ?case by (auto simp: st1_def)
qed

lemma apply_flags_TKOF_range:
  "st_options st OPT_TKOF \<in> {-1, 1} \<Longrightarrow> st_options (apply_flags fs st) OPT_TKOF \<in> {-1, 1}"
  by (simp add: apply_flags_TKOF)

lemma apply_flags_K:
  "st_K (apply_flags fs st) = (case custom_constant fs of None \<Rightarrow> st_K st | Some a \<Rightarrow> atof a)"
proof (induction fs arbitrary: st)
  case Nil
  show ?case by simp
next
  case (Cons f fs)
  obtain c oa where f: "f = (c, oa)" by (cases f)
  define st1 where "st1 = (case switch_opt c oa st of Some st' \<Rightarrow> st' | None \<Rightarrow> st)"
  have "st_K st1 = (case (if c = CHR ''k'' then oa else None) of None \<Rightarrow> st_K st | Some a \<Rightarrow> atof a)"
    unfolding st1_def by (auto simp: switch_opt_def split: option.splits)
  with Cons [of st1] f show ?case by (auto simp: st1_def split: option.splits)
qed

lemma apply_flags_mode:
  "st_options st OPT_K \<in> {-1, 0, 1, 2} \<Longrightarrow> st_options (apply_flags fs st) OPT_K \<in> {-1, 0, 1, 2}"
proof (induction fs arbitrary: st)
  case Nil
  then show ?case by simp
next
  case (Cons f fs)
  obtain c oa where f: "f = (c, oa)" by (cases f)
  define st1 where "st1 = (case switch_opt c oa st of Some st' \<Rightarrow> st' | None \<Rightarrow> st)"
  have "st_options st1 OPT_K \<in> {-1, 0, 1, 2}"
    using Cons.prems unfolding st1_def by (auto simp: switch_opt_def split: option.splits)
  from Cons.IH [OF this] f show ?case by (simp add: st1_def)
qed

lemma apply_flags_custom:
  "st_options (apply_flags fs st) OPT_K = 0 \<Longrightarrow> st_options st OPT_K \<noteq> 0 \<Longrightarrow>
     \<exists>a. custom_constant fs = Some a"
proof (induction fs arbitrary: st)
  case Nil
  then show ?case by simp
next
  case (Cons f fs)
  obtain c oa where f: "f = (c, oa)" by (cases f)
  define st1 where "st1 = (case switch_opt c oa st of Some st' \<Rightarrow> st' | None \<Rightarrow> st)"
  have zero: "st_options st1 OPT_K = 0 \<Longrightarrow> c = CHR ''k'' \<and> oa \<noteq> None"
    using Cons.prems(2) unfolding st1_def by (auto simp: switch_opt_def split: option.splits if_splits)
  from Cons.prems(1) f have fin: "st_options (apply_flags fs st1) OPT_K = 0" by (simp add: st1_def)
  show ?case
  proof (cases "st_options st1 OPT_K = 0")
    case True
    with zero f show ?thesis by (auto split: option.splits)
  next
    case False
    from Cons.IH [OF fin False] f show ?thesis by auto
  qed
qed

lemma apply_flags_valueWanted:
  "st_valueWanted st \<in> {PARAM_MASS, PARAM_VELOCITY, PARAM_ENERGY} \<Longrightarrow>
     st_valueWanted (apply_flags fs st) \<in> {PARAM_MASS, PARAM_VELOCITY, PARAM_ENERGY}"
proof (induction fs arbitrary: st)
  case Nil
  then show ?case by simp
next
  case (Cons f fs)
  obtain c oa where f: "f = (c, oa)" by (cases f)
  define st1 where "st1 = (case switch_opt c oa st of Some st' \<Rightarrow> st' | None \<Rightarrow> st)"
  have "st_valueWanted st1 \<in> {PARAM_MASS, PARAM_VELOCITY, PARAM_ENERGY}"
    using Cons.prems unfolding st1_def by (auto simp: switch_opt_def split: option.splits)
  from Cons.IH [OF this] f show ?case by (simp add: st1_def)
qed

subsection \<open>Evaluating a run\<close>

lemmas double_eval =
  is_nan_def is_inf_def is_zero_def sign_bit_def val_def inf_of_sign_def zero_of_sign_def
  dneg_def bit_length.simps pow2_def exponent_def quantum_def round_half_even_def round_to_def
  pack_def to_double_def dmul_def ddiv_def dsqrt_def round_away_def c_round_def digit_char_def
  show_nat.simps pad_zeros_def show_fixed_def printf_f_def

lemmas muzz_eval =
  main_def init_state_def getopt_init_def getopt_loop.simps getopt_trace.simps getopt_def
  take_option_def opt_kind_def optString_def is_option_element_def info_text_def informational_def
  switch_opt_def finish_def after_options_def compute_def atof_argv_def usage_error_def
  flags_def operands_def returned_def left_over_def List.map_filter_simps
  atof_def strtod_def strtod_unsigned_def has_prefix_ci_def scan_mantissa_def scan_exponent_def
  scale_def digits_val_def digit_val_def isdigit_def isxdigit_def isspace_def
  result_def set_constant_def GRAVITY_IMPERIAL_APPROX_def GRAVITY_IMPERIAL_def
  get_energy_def get_mass_def get_velocity_def verbose_result_def tkof_def
  double_eval print_usage_def PARAM_MASS_def PARAM_ENERGY_def PARAM_VELOCITY_def Let_def

section \<open>The command line\<close>

lemma flags_short: "length argv < 2 \<Longrightarrow> flags pc argv = []"
proof -
  assume "length argv < 2"
  then have "drop 1 argv = []" by simp
  then have "getopt pc optString (getopt_init argv) = ((None, None, []), getopt_init argv)"
    by (simp add: getopt_def getopt_init_def)
  then show ?thesis by (simp add: flags_def trace_simps)
qed

lemma st_getopt_init [simp]: "st_getopt (init_state argv) = getopt_init argv"
  by (simp add: init_state_def)

text \<open>Without an informational flag \<open>main\<close> reaches the statements after the loop.\<close>

lemma main_after_options:
  assumes "find informational (flags pc argv) = None" and "2 \<le> length argv"
  obtains st where "getopt_loop pc (init_state argv) = Some (Inr st)"
    and "main pc argv = after_options st"
    and "nonopts (st_getopt st) @ unscanned (st_getopt st) = operands pc argv"
    and "core st = core (apply_flags (flags pc argv) (init_state argv))"
proof -
  from assms(1) have "\<forall>f \<in> set (returned (getopt_trace pc (st_getopt (init_state argv)))). \<not> informational f"
    by (auto simp: find_None_iff flags_def)
  from getopt_loop_completes [OF this]
  obtain st where st: "getopt_loop pc (init_state argv) = Some (Inr st)" by blast
  have "main pc argv = after_options st"
    using st assms(2) by (simp add: main_def)
  moreover have "nonopts (st_getopt st) @ unscanned (st_getopt st) = operands pc argv"
    using getopt_loop_left_over [OF st] by (simp add: operands_def)
  moreover have "core st = core (apply_flags (flags pc argv) (init_state argv))"
    using getopt_loop_core [OF st refl] by (simp add: flags_def)
  ultimately show ?thesis using st that by blast
qed

lemma core_fields:
  "core s = core t \<Longrightarrow> st_options s = st_options t \<and> st_valueWanted s = st_valueWanted t \<and> st_K s = st_K t"
  by (simp add: core_def)

lemma flags_nonempty_length: "x \<in> set (flags pc argv) \<Longrightarrow> 2 \<le> length argv"
  using flags_short [of argv pc] by (cases "length argv < 2") auto

lemma init_state_fields [simp]:
  "st_options (init_state argv) OPT_TKOF = -1"
  "st_options (init_state argv) OPT_K = -1"
  "st_valueWanted (init_state argv) = PARAM_ENERGY"
  "st_K (init_state argv) = Fin 0"
  by (simp_all add: init_state_def)

text \<open>
  C5, as the code has it. With no argument at all the message is \<open>Too few arguments\<close>.
  Otherwise, when no informational flag is given: without an operand the message is
  \<open>Parameters required\<close>; with exactly one operand it is \<open>Need more than one
  parameter\<close>, with or without \<open>-t\<close>; with \<open>-t\<close> and exactly two operands it names mass,
  velocity and diameter. Each time the usage line follows on the error stream, nothing
  is written to standard output and the exit status is 1.
\<close>

theorem usage_errors:
  "(length argv < 2 \<longrightarrow>
      main posixly_correct argv =
        Some (usage_error (init_state argv) (''ERROR:  Too few arguments'' @ [NL])))
   \<and> (2 \<le> length argv \<and> find informational (flags posixly_correct argv) = None \<longrightarrow>
        (\<exists>st. getopt_loop posixly_correct (init_state argv) = Some (Inr st)
           \<and> (operands posixly_correct argv = [] \<longrightarrow>
                main posixly_correct argv =
                  Some (usage_error st (''ERROR:  Parameters required'' @ [NL])))
           \<and> (length (operands posixly_correct argv) = 1 \<longrightarrow>
                main posixly_correct argv =
                  Some (usage_error st (''ERROR:  Need more than one parameter'' @ [NL])))
           \<and> (CHR ''t'' \<in> fst ` set (flags posixly_correct argv)
                \<and> length (operands posixly_correct argv) = 2 \<longrightarrow>
                main posixly_correct argv =
                  Some (usage_error st
                    (''ERROR:  The Taylor Knockout Formula requires three paramters:'' @ [NL]
                     @ ''Mass, Velocity and Diameter of projectile'' @ [NL])))))
   \<and> exit_code (usage_error st0 message) = 1
   \<and> out (usage_error st0 message) = []
   \<and> err (usage_error st0 message) =
        message @ ''Usage:  muzz [OPTION] MASS VELOCITY [DIAMETER]'' @ [NL, NL]
          @ ''To view help, run with -h argument.'' @ [NL]"
proof -
  have A: "length argv < 2 \<longrightarrow>
      main posixly_correct argv =
        Some (usage_error (init_state argv) (''ERROR:  Too few arguments'' @ [NL]))"
    by (simp add: main_def)
  have B: "\<exists>st. getopt_loop posixly_correct (init_state argv) = Some (Inr st)
           \<and> (operands posixly_correct argv = [] \<longrightarrow>
                main posixly_correct argv =
                  Some (usage_error st (''ERROR:  Parameters required'' @ [NL])))
           \<and> (length (operands posixly_correct argv) = 1 \<longrightarrow>
                main posixly_correct argv =
                  Some (usage_error st (''ERROR:  Need more than one parameter'' @ [NL])))
           \<and> (CHR ''t'' \<in> fst ` set (flags posixly_correct argv)
                \<and> length (operands posixly_correct argv) = 2 \<longrightarrow>
                main posixly_correct argv =
                  Some (usage_error st
                    (''ERROR:  The Taylor Knockout Formula requires three paramters:'' @ [NL]
                     @ ''Mass, Velocity and Diameter of projectile'' @ [NL])))"
    if len: "2 \<le> length argv" and ni: "find informational (flags posixly_correct argv) = None"
  proof -
    obtain st where loop: "getopt_loop posixly_correct (init_state argv) = Some (Inr st)"
      and m: "main posixly_correct argv = after_options st"
      and ops: "nonopts (st_getopt st) @ unscanned (st_getopt st) = operands posixly_correct argv"
      and c: "core st = core (apply_flags (flags posixly_correct argv) (init_state argv))"
      by (rule main_after_options [OF ni len])
    have tk: "CHR ''t'' \<in> fst ` set (flags posixly_correct argv) \<Longrightarrow> st_options st OPT_TKOF = 1"
      using core_fields [OF c] by (simp add: apply_flags_TKOF)
    have 0: "operands posixly_correct argv = [] \<Longrightarrow>
               after_options st = Some (usage_error st (''ERROR:  Parameters required'' @ [NL]))"
      using ops by (auto simp: after_options_def Let_def)
    have 1: "length (operands posixly_correct argv) = 1 \<Longrightarrow>
               after_options st = Some (usage_error st (''ERROR:  Need more than one parameter'' @ [NL]))"
      using ops by (auto simp: after_options_def Let_def)
    have 2: "CHR ''t'' \<in> fst ` set (flags posixly_correct argv) \<Longrightarrow>
             length (operands posixly_correct argv) = 2 \<Longrightarrow>
               after_options st = Some (usage_error st
                    (''ERROR:  The Taylor Knockout Formula requires three paramters:'' @ [NL]
                     @ ''Mass, Velocity and Diameter of projectile'' @ [NL]))"
      using ops tk by (auto simp: after_options_def Let_def)
    from loop m 0 1 2 show ?thesis by auto
  qed
  have C: "exit_code (usage_error st0 message) = 1 \<and> out (usage_error st0 message) = []
     \<and> err (usage_error st0 message) =
        message @ ''Usage:  muzz [OPTION] MASS VELOCITY [DIAMETER]'' @ [NL, NL]
          @ ''To view help, run with -h argument.'' @ [NL]"
    by (simp add: usage_error_def finish_def print_usage_def)
  from A B C show ?thesis by blast
qed

theorem usage_errors_witness:
  "length [''muzz''] < 2
   \<and> main True [''muzz''] = Some (usage_error (init_state [''muzz'']) (''ERROR:  Too few arguments'' @ [NL]))
   \<and> find informational (flags True [''muzz'', ''-ts'', ''230'', ''860'']) = None
   \<and> CHR ''t'' \<in> fst ` set (flags True [''muzz'', ''-ts'', ''230'', ''860''])
   \<and> length (operands True [''muzz'', ''-ts'', ''230'', ''860'']) = 2
   \<and> main True [''muzz'', ''-ts'', ''230'', ''860''] =
       Some \<lparr>exit_code = 1, out = [],
             err = ''ERROR:  The Taylor Knockout Formula requires three paramters:'' @ [NL]
               @ ''Mass, Velocity and Diameter of projectile'' @ [NL]
               @ ''Usage:  muzz [OPTION] MASS VELOCITY [DIAMETER]'' @ [NL, NL]
               @ ''To view help, run with -h argument.'' @ [NL],
             libc_diag = [], global_K = Fin 0\<rparr>
   \<and> operands True [''muzz'', ''-q''] = []
   \<and> main True [''muzz'', ''-q''] =
       Some \<lparr>exit_code = 1, out = [],
             err = ''ERROR:  Parameters required'' @ [NL]
               @ ''Usage:  muzz [OPTION] MASS VELOCITY [DIAMETER]'' @ [NL, NL]
               @ ''To view help, run with -h argument.'' @ [NL],
             libc_diag = [], global_K = Fin 0\<rparr>
   \<and> length (operands True [''muzz'', ''230'']) = 1
   \<and> main True [''muzz'', ''230''] =
       Some \<lparr>exit_code = 1, out = [],
             err = ''ERROR:  Need more than one parameter'' @ [NL]
               @ ''Usage:  muzz [OPTION] MASS VELOCITY [DIAMETER]'' @ [NL, NL]
               @ ''To view help, run with -h argument.'' @ [NL],
             libc_diag = [], global_K = Fin 0\<rparr>"
  using usage_errors [of "[''muzz'']" True]
    usage_errors [of "[''muzz'', ''-ts'', ''230'', ''860'']" True]
    usage_errors [of "[''muzz'', ''-q'']" True]
    usage_errors [of "[''muzz'', ''230'']" True]
  by (simp add: muzz_eval)

text \<open>
  The claim as the specification words it fails twice: without any argument the message
  is not \<open>Parameters required\<close>, and \<open>-t\<close> with one operand gives the message for one
  operand, not the one that names mass, velocity and diameter.
\<close>

theorem usage_errors_counterexample:
  "operands True [''muzz''] = []
   \<and> main True [''muzz''] =
       Some \<lparr>exit_code = 1, out = [],
             err = ''ERROR:  Too few arguments'' @ [NL]
               @ ''Usage:  muzz [OPTION] MASS VELOCITY [DIAMETER]'' @ [NL, NL]
               @ ''To view help, run with -h argument.'' @ [NL],
             libc_diag = [], global_K = Fin 0\<rparr>
   \<and> flags True [''muzz'', ''-t'', ''230''] = [(CHR ''t'', None)]
   \<and> operands True [''muzz'', ''-t'', ''230''] = [''230'']
   \<and> main True [''muzz'', ''-t'', ''230''] =
       Some \<lparr>exit_code = 1, out = [],
             err = ''ERROR:  Need more than one parameter'' @ [NL]
               @ ''Usage:  muzz [OPTION] MASS VELOCITY [DIAMETER]'' @ [NL, NL]
               @ ''To view help, run with -h argument.'' @ [NL],
             libc_diag = [], global_K = Fin 0\<rparr>"
  by (simp add: muzz_eval)

lemma operands_short:
  assumes "length argv < 2"
  shows "operands pc argv = []"
proof -
  let ?g = "\<lparr>nextchar = [], unscanned = [], nonopts = []\<rparr>"
  from assms have g: "getopt_init argv = ?g" by (simp add: getopt_init_def)
  have "getopt pc optString ?g = ((None, None, []), ?g)"
    by (simp add: getopt_def)
  with g show ?thesis by (simp add: operands_def trace_simps)
qed

lemma result_K: "snd (result K0 mass velocity energy param options) = set_constant options K0"
  by (simp add: result_def Let_def split: prod.splits)

lemma set_constant_idem: "set_constant options (set_constant options K) = set_constant options K"
  by (simp add: set_constant_def Let_def)

lemma result_resolved:
  "result K0 mass velocity energy param options
     = result (set_constant options K0) mass velocity energy param options"
  by (simp add: result_def set_constant_idem Let_def)

text \<open>
  The two products \<open>2 * GRAVITY * 7000\<close> in double arithmetic:
  450281.99999999994 and 450434.60000000003, not the real numbers 450282 and 450434.6.
\<close>

lemma gravity_constants:
  "dmul (dmul (Fin 2) GRAVITY_IMPERIAL_APPROX) (Fin 7000) = Fin (7735785855909887 / 2 ^ 34)"
  "dmul (dmul (Fin 2) GRAVITY_IMPERIAL) (Fin 7000) = Fin (7738407503947367 / 2 ^ 34)"
  by (simp_all add: GRAVITY_IMPERIAL_APPROX_def GRAVITY_IMPERIAL_def double_eval)

lemma set_constant_table:
  "options OPT_SI = 1 \<Longrightarrow> options OPT_K \<noteq> 0 \<Longrightarrow> set_constant options K = Fin 1000"
  "options OPT_SI \<noteq> 1 \<Longrightarrow> options OPT_K = -1 \<Longrightarrow> set_constant options K = Fin 450240"
  "options OPT_SI \<noteq> 1 \<Longrightarrow> options OPT_K = 1 \<Longrightarrow>
     set_constant options K = Fin (7735785855909887 / 2 ^ 34)"
  "options OPT_SI \<noteq> 1 \<Longrightarrow> options OPT_K = 2 \<Longrightarrow>
     set_constant options K = Fin (7738407503947367 / 2 ^ 34)"
  "options OPT_K = 0 \<Longrightarrow> set_constant options K = K"
  by (simp_all add: set_constant_def Let_def gravity_constants)

lemma set_constant_positive:
  assumes "options OPT_K \<in> {-1, 1, 2}"
  shows "\<exists>k. set_constant options K = Fin k \<and> 0 < k"
proof (cases "options OPT_SI = 1")
  case True
  with assms have "set_constant options K = Fin 1000"
    by (auto simp: set_constant_table)
  then show ?thesis by simp
next
  case False
  with assms consider "set_constant options K = Fin 450240"
    | "set_constant options K = Fin (7735785855909887 / 2 ^ 34)"
    | "set_constant options K = Fin (7738407503947367 / 2 ^ 34)"
    by (auto simp: set_constant_table)
  then show ?thesis
  proof cases
    case 1
    then show ?thesis by (intro exI [of _ 450240]) simp
  next
    case 2
    then show ?thesis by (intro exI [of _ "7735785855909887 / 2 ^ 34"]) simp
  next
    case 3
    then show ?thesis by (intro exI [of _ "7738407503947367 / 2 ^ 34"]) simp
  qed
qed

text \<open>
  With two operands and without \<open>-t\<close> \<open>main\<close> calls \<open>result\<close>; the three inputs are
  \<open>atof\<close> of the operands, or the initial -1.
\<close>

definition standard_inputs :: "int \<Rightarrow> string list \<Rightarrow> double \<times> double \<times> double" where
  "standard_inputs valueWanted ops =
     (atof (ops ! 0),
      (if valueWanted = PARAM_MASS then atof (ops ! 0) else atof (ops ! 1)),
      (if valueWanted = PARAM_ENERGY then Fin (-1) else atof (ops ! 1)))"

lemma main_standard:
  assumes "find informational (flags pc argv) = None"
    and "CHR ''t'' \<notin> fst ` set (flags pc argv)"
    and "2 \<le> length (operands pc argv)"
  obtains st mass velocity energy where
    "getopt_loop pc (init_state argv) = Some (Inr st)"
    and "standard_inputs (st_valueWanted st) (operands pc argv) = (mass, velocity, energy)"
    and "main pc argv =
           Some (finish (st\<lparr>st_K := set_constant (st_options st) (st_K st)\<rparr>) 0
                   (fst (result (st_K st) mass velocity energy (st_valueWanted st) (st_options st))) [])"
    and "st_options st OPT_K \<in> {-1, 0, 1, 2}"
    and "st_K st = (case custom_constant (flags pc argv) of None \<Rightarrow> Fin 0 | Some a \<Rightarrow> atof a)"
    and "st_options st OPT_K = 0 \<longrightarrow> (\<exists>a. custom_constant (flags pc argv) = Some a)"
proof -
  have len: "2 \<le> length argv"
    using assms(3) operands_short [of argv pc] by (cases "length argv < 2") auto
  obtain st where loop: "getopt_loop pc (init_state argv) = Some (Inr st)"
    and m: "main pc argv = after_options st"
    and ops: "nonopts (st_getopt st) @ unscanned (st_getopt st) = operands pc argv"
    and c: "core st = core (apply_flags (flags pc argv) (init_state argv))"
    by (rule main_after_options [OF assms(1) len])
  note f = core_fields [OF c]
  from f assms(2) have tk: "st_options st OPT_TKOF = -1"
    by (simp add: apply_flags_TKOF)
  from f have vw: "st_valueWanted st \<in> {PARAM_MASS, PARAM_VELOCITY, PARAM_ENERGY}"
    using apply_flags_valueWanted [of "init_state argv" "flags pc argv"] by simp
  from f have mode: "st_options st OPT_K \<in> {-1, 0, 1, 2}"
    using apply_flags_mode [of "init_state argv" "flags pc argv"] by simp
  from f have k: "st_K st = (case custom_constant (flags pc argv) of None \<Rightarrow> Fin 0 | Some a \<Rightarrow> atof a)"
    by (simp add: apply_flags_K split: option.splits)
  have cust: "st_options st OPT_K = 0 \<longrightarrow> (\<exists>a. custom_constant (flags pc argv) = Some a)"
    using f apply_flags_custom [of "flags pc argv" "init_state argv"] by simp
  obtain mass velocity energy where
    inp: "standard_inputs (st_valueWanted st) (operands pc argv) = (mass, velocity, energy)"
    by (cases "standard_inputs (st_valueWanted st) (operands pc argv)") auto
  have "compute st (operands pc argv) (atof (operands pc argv ! 0)) (atof (operands pc argv ! 1))
            (Fin (-1)) (Fin (-1)) =
          Some (finish (st\<lparr>st_K := set_constant (st_options st) (st_K st)\<rparr>) 0
                   (fst (result (st_K st) mass velocity energy (st_valueWanted st) (st_options st))) [])"
    using tk vw assms(3) inp result_K [of "st_K st" mass velocity energy "st_valueWanted st" "st_options st"]
    by (auto simp: compute_def atof_argv_def standard_inputs_def Let_def
          PARAM_MASS_def PARAM_VELOCITY_def PARAM_ENERGY_def split: prod.splits)
  with tk ops assms(3) have "after_options st =
          Some (finish (st\<lparr>st_K := set_constant (st_options st) (st_K st)\<rparr>) 0
                   (fst (result (st_K st) mass velocity energy (st_valueWanted st) (st_options st))) [])"
    by (auto simp: after_options_def atof_argv_def Let_def)
  with m loop inp mode k cust that show ?thesis by metis
qed

lemma compute_no_fault: "2 \<le> length ops \<Longrightarrow> compute st ops m v d e \<noteq> None"
  by (auto simp: compute_def atof_argv_def Let_def split: prod.splits)

lemma after_options_no_fault: "after_options st \<noteq> None"
proof -
  let ?ops = "nonopts (st_getopt st) @ unscanned (st_getopt st)"
  consider "length ?ops = 0" | "length ?ops = 1" | "length ?ops = 2" | "3 \<le> length ?ops"
    by linarith
  then show ?thesis
  proof cases
    case 1
    then show ?thesis by (simp add: after_options_def Let_def)
  next
    case 2
    then show ?thesis by (simp add: after_options_def Let_def)
  next
    case 3
    then show ?thesis
      using compute_no_fault [of ?ops st]
      by (simp add: after_options_def Let_def atof_argv_def)
  next
    case 4
    then show ?thesis
      using compute_no_fault [of ?ops st]
      by (simp add: after_options_def Let_def atof_argv_def)
  qed
qed

lemma main_no_fault: "main pc argv \<noteq> None"
proof (cases "getopt_loop pc (init_state argv)")
  case None
  then show ?thesis using getopt_loop_no_fault by blast
next
  case (Some r)
  then show ?thesis
    using after_options_no_fault by (cases r) (simp_all add: main_def)
qed

text \<open>
  C9, as the code has it. In a run that reaches \<open>result\<close>, the constant is set once, at
  the start of \<open>result\<close>, and the global \<open>K\<close> still holds it when the program ends;
  what \<open>result\<close> prints depends on the global \<open>K\<close> before the call only through this
  constant. The constant is a positive number unless the constant mode is custom
  (\<open>options[OPT_K] = 0\<close>); then it is \<open>atof\<close> of the argument of the last \<open>-k\<close>, which
  nothing constrains.
\<close>

theorem constant_fixed:
  "(find informational (flags posixly_correct argv) = None
    \<and> CHR ''t'' \<notin> fst ` set (flags posixly_correct argv)
    \<and> 2 \<le> length (operands posixly_correct argv) \<longrightarrow>
      (\<exists>st outcome.
          getopt_loop posixly_correct (init_state argv) = Some (Inr st)
        \<and> main posixly_correct argv = Some outcome
        \<and> global_K outcome = set_constant (st_options st) (st_K st)
        \<and> (st_options st OPT_K \<noteq> 0 \<longrightarrow>
              (\<exists>k. set_constant (st_options st) (st_K st) = Fin k \<and> 0 < k))
        \<and> (st_options st OPT_K = 0 \<longrightarrow>
              (\<exists>a. custom_constant (flags posixly_correct argv) = Some a
                   \<and> set_constant (st_options st) (st_K st) = atof a))))
   \<and> snd (result K0 mass velocity energy param options) = set_constant options K0
   \<and> result K0 mass velocity energy param options
        = result (set_constant options K0) mass velocity energy param options"
proof -
  have run: "\<exists>st outcome.
          getopt_loop posixly_correct (init_state argv) = Some (Inr st)
        \<and> main posixly_correct argv = Some outcome
        \<and> global_K outcome = set_constant (st_options st) (st_K st)
        \<and> (st_options st OPT_K \<noteq> 0 \<longrightarrow>
              (\<exists>k. set_constant (st_options st) (st_K st) = Fin k \<and> 0 < k))
        \<and> (st_options st OPT_K = 0 \<longrightarrow>
              (\<exists>a. custom_constant (flags posixly_correct argv) = Some a
                   \<and> set_constant (st_options st) (st_K st) = atof a))"
    if h: "find informational (flags posixly_correct argv) = None"
      "CHR ''t'' \<notin> fst ` set (flags posixly_correct argv)"
      "2 \<le> length (operands posixly_correct argv)"
  proof -
    obtain st mass velocity energy where
      loop: "getopt_loop posixly_correct (init_state argv) = Some (Inr st)"
      and inp: "standard_inputs (st_valueWanted st) (operands posixly_correct argv)
                  = (mass, velocity, energy)"
      and m: "main posixly_correct argv =
           Some (finish (st\<lparr>st_K := set_constant (st_options st) (st_K st)\<rparr>) 0
                   (fst (result (st_K st) mass velocity energy (st_valueWanted st) (st_options st))) [])"
      and mode: "st_options st OPT_K \<in> {-1, 0, 1, 2}"
      and k: "st_K st = (case custom_constant (flags posixly_correct argv) of
                           None \<Rightarrow> Fin 0 | Some a \<Rightarrow> atof a)"
      and cust: "st_options st OPT_K = 0 \<longrightarrow>
                   (\<exists>a. custom_constant (flags posixly_correct argv) = Some a)"
      by (rule main_standard [OF h])
    let ?outcome = "finish (st\<lparr>st_K := set_constant (st_options st) (st_K st)\<rparr>) 0
                   (fst (result (st_K st) mass velocity energy (st_valueWanted st) (st_options st))) []"
    have g: "global_K ?outcome = set_constant (st_options st) (st_K st)"
      by (simp add: finish_def)
    have pos: "\<exists>k. set_constant (st_options st) (st_K st) = Fin k \<and> 0 < k"
      if "st_options st OPT_K \<noteq> 0"
      using mode that by (intro set_constant_positive) auto
    have "\<exists>a. custom_constant (flags posixly_correct argv) = Some a
              \<and> set_constant (st_options st) (st_K st) = atof a"
      if z: "st_options st OPT_K = 0"
    proof -
      from cust z obtain a where a: "custom_constant (flags posixly_correct argv) = Some a"
        by blast
      with k have "st_K st = atof a" by simp
      with z a show ?thesis by (simp add: set_constant_table)
    qed
    with loop m g pos show ?thesis by blast
  qed
  from run result_K [of K0 mass velocity energy param options]
    result_resolved [of K0 mass velocity energy param options]
  show ?thesis by blast
qed

theorem constant_fixed_witness:
  "find informational (flags True [''muzz'', ''-c'', ''230'', ''900'']) = None
   \<and> CHR ''t'' \<notin> fst ` set (flags True [''muzz'', ''-c'', ''230'', ''900''])
   \<and> 2 \<le> length (operands True [''muzz'', ''-c'', ''230'', ''900''])
   \<and> main True [''muzz'', ''-c'', ''230'', ''900''] =
       Some \<lparr>exit_code = 0, out = ''230 gr @ 900 ft/s = 414 lbf'' @ [NL], err = [],
             libc_diag = [], global_K = Fin (7735785855909887 / 2 ^ 34)\<rparr>
   \<and> snd (result (Fin 0) (Fin 230) (Fin 900) (Fin (-1)) PARAM_ENERGY ((\<lambda>i. -1)(OPT_K := 1)))
       = Fin (7735785855909887 / 2 ^ 34)"
  using constant_fixed [of True "[''muzz'', ''-c'', ''230'', ''900'']"
      "Fin 0" "Fin 230" "Fin 900" "Fin (-1)" PARAM_ENERGY "(\<lambda>i. -1)(OPT_K := 1)"]
  by (simp add: muzz_eval)

text \<open>
  The claim as the specification words it fails: \<open>-k 0\<close> makes the constant zero, and the
  run divides by it.
\<close>

theorem constant_fixed_counterexample:
  "flags True [''muzz'', ''-k'', ''0'', ''230'', ''900''] = [(CHR ''k'', Some ''0'')]
   \<and> operands True [''muzz'', ''-k'', ''0'', ''230'', ''900''] = [''230'', ''900'']
   \<and> main True [''muzz'', ''-k'', ''0'', ''230'', ''900''] =
       Some \<lparr>exit_code = 0, out = ''230 gr @ 900 ft/s = inf lbf'' @ [NL], err = [],
             libc_diag = [], global_K = Fin 0\<rparr>"
  by (simp add: muzz_eval)

section \<open>Informational flags\<close>

lemma informational_iff: "informational f \<longleftrightarrow> fst f \<in> set ''hVHE''"
  by (auto simp: informational_def info_text_def)

lemma informational_eq: "informational = (\<lambda>f. fst f \<in> set ''hVHE'')"
  by (rule ext) (rule informational_iff)

lemma opt_kind_question: "opt_kind optString (CHR ''?'') = None"
  by (simp add: opt_kind_def optString_def)

text \<open>\<open>getopt\<close> writes a diagnostic exactly when it returns \<open>?\<close>.\<close>

lemma take_option_diag:
  assumes "take_option optString c cs st = ((Some c', oa, d), st')"
  shows "d = [] \<longleftrightarrow> c' \<noteq> CHR ''?''"
proof (cases "opt_kind optString c")
  case None
  with assms show ?thesis by (auto simp: take_option_def)
next
  case (Some b)
  then have "c \<noteq> CHR ''?''" using opt_kind_question by auto
  with Some assms show ?thesis
    by (cases b) (auto simp: take_option_def split: if_splits list.splits)
qed

lemma getopt_diag:
  assumes "getopt pc optString g = ((Some c, oa, d), g')"
  shows "d = [] \<longleftrightarrow> c \<noteq> CHR ''?''"
proof (cases "nextchar g")
  case (Cons x xs)
  with assms have "take_option optString x xs g = ((Some c, oa, d), g')"
    by (simp add: getopt_def)
  then show ?thesis by (rule take_option_diag)
next
  case Nil
  with assms obtain x xs g1 where "take_option optString x xs g1 = ((Some c, oa, d), g')"
    by (auto simp: getopt_def Let_def split: list.splits if_splits)
  then show ?thesis by (rule take_option_diag)
qed

lemma getopt_loop_info_diag:
  "find informational (returned (getopt_trace pc (st_getopt st))) = Some (c, optarg) \<Longrightarrow>
   getopt_loop pc st = Some (Inl outcome) \<Longrightarrow>
     (libc_diag outcome = [] \<longleftrightarrow>
        st_diag st = [] \<and>
        CHR ''?'' \<notin> fst ` set (takeWhile (\<lambda>f. \<not> informational f)
                                  (returned (getopt_trace pc (st_getopt st)))))"
proof (induction pc st rule: getopt_loop_induct)
  case (step pc st)
  show ?case
  proof (cases pc st rule: getopt_cases)
    case (End oa d g)
    with step.prems show ?thesis by (simp add: trace_simps)
  next
    case (Info c' oa d g t)
    then have i: "informational (c', oa)" by (simp add: informational_def)
    from Info(2) have "c' \<noteq> CHR ''?''" by (auto simp: info_text_def split: if_splits)
    with getopt_diag [OF Info(1)] have d: "d = []" by simp
    from Info step.prems(2) have "libc_diag outcome = st_diag st @ d"
      by (auto simp: getopt_loop_info finish_def)
    with d i Info(1) show ?thesis by (simp add: trace_simps)
  next
    case (Step c' oa d g st2)
    then have g: "st_getopt st2 = g" and ni: "\<not> informational (c', oa)"
      by (auto dest: switch_opt_getopt simp: informational_def)
    from Step(3) have sd: "st_diag st2 = st_diag st @ d"
      using switch_opt_fields(1) [OF Step(3)] by simp
    from Step step.prems(1) g ni
    have f: "find informational (returned (getopt_trace pc (st_getopt st2))) = Some (c, optarg)"
      by (simp add: trace_simps)
    from Step step.prems(2) have l: "getopt_loop pc st2 = Some (Inl outcome)"
      by (simp add: getopt_loop_step)
    note IH = step.IH [OF Step f l]
    have tr: "returned (getopt_trace pc (st_getopt st)) = (c', oa) # returned (getopt_trace pc g)"
      using Step(1) by (simp add: trace_simps)
    from getopt_diag [OF Step(1)] have "d = [] \<longleftrightarrow> c' \<noteq> CHR ''?''" .
    with IH sd g tr ni show ?thesis by auto
  qed
qed

text \<open>
  C6, as the code has it. When \<open>getopt\<close> returns an informational flag (\<open>-h\<close>, \<open>-V\<close>,
  \<open>-H\<close> or \<open>-E\<close>), the program prints the text of the first one on standard output
  and exits with status 0, whatever the other flags and the operands are. The program
  itself writes nothing to the error stream; \<open>getopt\<close> has written a diagnostic there
  for every \<open>?\<close> it returned before that flag (an unknown option, a \<open>-k\<close> without
  argument), so the error stream is empty exactly when there was none.
\<close>

theorem informational_flag_exits:
  assumes "find (\<lambda>f. fst f \<in> set ''hVHE'') (flags posixly_correct argv) = Some (c, optarg)"
  shows "\<exists>outcome. main posixly_correct argv = Some outcome \<and> exit_code outcome = 0
           \<and> out outcome =
               (if c = CHR ''h'' then print_help
                else if c = CHR ''V'' then print_version
                else if c = CHR ''H'' then print_additional_help
                else print_examples)
           \<and> err outcome = []
           \<and> (libc_diag outcome = [] \<longleftrightarrow>
                CHR ''?'' \<notin> fst ` set (takeWhile (\<lambda>f. fst f \<notin> set ''hVHE'')
                                          (flags posixly_correct argv)))"
proof -
  from assms have fi: "find informational (flags posixly_correct argv) = Some (c, optarg)"
    by (simp add: informational_eq)
  then have "flags posixly_correct argv \<noteq> []" by auto
  then have len: "\<not> length argv < 2" using flags_short by blast
  from fi
  have f: "find informational (returned (getopt_trace posixly_correct (st_getopt (init_state argv))))
          = Some (c, optarg)"
    by (simp add: flags_def)
  from getopt_loop_finds_info [OF f]
  obtain st1 t where t: "info_text c = Some t"
    and loop: "getopt_loop posixly_correct (init_state argv) = Some (Inl (finish st1 0 t []))"
    by blast
  from len loop have m: "main posixly_correct argv = Some (finish st1 0 t [])"
    by (simp add: main_def)
  from t have tval: "t = (if c = CHR ''h'' then print_help
                else if c = CHR ''V'' then print_version
                else if c = CHR ''H'' then print_additional_help
                else print_examples)"
    by (auto simp: info_text_def split: if_splits)
  have "libc_diag (finish st1 0 t []) = [] \<longleftrightarrow>
          CHR ''?'' \<notin> fst ` set (takeWhile (\<lambda>f. fst f \<notin> set ''hVHE'') (flags posixly_correct argv))"
    using getopt_loop_info_diag [OF f loop]
    by (simp add: flags_def informational_eq init_state_def)
  with m tval show ?thesis by (simp add: finish_def)
qed

text \<open>Each of the four flags, with the text the program prints for it.\<close>

theorem informational_flag_exits_witness:
  "find (\<lambda>f. fst f \<in> set ''hVHE'') (flags False [''muzz'', ''-s'', ''230'', ''-tV'', ''900'', ''-h''])
     = Some (CHR ''V'', None)
   \<and> main False [''muzz'', ''-s'', ''230'', ''-tV'', ''900'', ''-h''] =
       Some \<lparr>exit_code = 0,
             out = ''muzz.c, version 1.01'' @ [NL]
          @ ''James Hendrie <hendrie.james@gmail.com>'' @ [NL],
             err = [], libc_diag = [], global_K = Fin 0\<rparr>
   \<and> find (\<lambda>f. fst f \<in> set ''hVHE'') (flags True [''muzz'', ''-qh'', ''230'']) = Some (CHR ''h'', None)
   \<and> main True [''muzz'', ''-qh'', ''230''] =
       Some \<lparr>exit_code = 0,
             out = ''Usage:  muzz [OPTION] MASS VELOCITY [DIAMETER]'' @ [NL]
          @ [NL] @ ''The program is used primarily to calculate the muzzle energy ''
          @ ''of projectiles.'' @ [NL, NL]
          @ ''Imperial gravity accleration constants (K = 2 * GAC * 7000) :'' @ [NL]
          @ ''GAC-1 (industry):  32.163'' @ [TAB]
          @ ''GAC-2 (standard):  32.1739'' @ [NL]
          @ [NL] @ ''Options'' @ [NL]
          @ ''  -h'' @ [TAB, TAB] @ ''Print this help text'' @ [NL]
          @ ''  -H'' @ [TAB, TAB] @ ''Print additional information on units used, etc.'' @ [NL]
          @ ''  -E'' @ [TAB, TAB] @ ''Print example usage'' @ [NL]
          @ ''  -V'' @ [TAB, TAB] @ ''Print version and author info'' @ [NL]
          @ ''  -S or q'' @ [TAB] @ ''Silent (quiet) mode; print only the resultant number''
            @ [NL]
          @ ''  -s'' @ [TAB, TAB] @ ''Use Si (metric) units of measure - grams, m/s, joules''
            @ [NL]
          @ ''  -i'' @ [TAB, TAB] @ ''Use Imperial units - grains, ft/s, lbf (default)'' @ [NL]
          @ ''  -m'' @ [TAB, TAB] @ ''Calculate for mass (num1 = velocity, num2 = energy)'' @ [NL]
          @ ''  -v'' @ [TAB, TAB] @ ''Calculate for velocity (num1 = mass, num2 = energy)'' @ [NL]
          @ ''  -e'' @ [TAB, TAB] @ ''Calculate for energy (num1 = mass, num2 = velocity) ''
          @ ''(default)'' @ [NL]
          @ ''  -K'' @ [TAB, TAB] @ ''Use industry standard imperial constant (450,240) ''
          @ '' (default)'' @ [NL]
          @ ''  -k [num]'' @ [TAB] @ ''Custom user constant'' @ [NL]
          @ ''  -c'' @ [TAB, TAB] @ ''Calculate constant using '' @ [QUOTE] @ ''industry''
            @ [QUOTE] @ '' GAC-1'' @ [NL]
          @ ''  -C'' @ [TAB, TAB] @ ''Calculate constant using standard GAC-2'' @ [NL]
          @ ''  -p'' @ [TAB, TAB] @ ''Be precise (do not round any numbers)'' @ [NL] @ ''  ''
          @ ''-t'' @ [TAB, TAB] @ ''Use Taylor Knockout Formula (give mass, velocity, diameter)''
          @ [NL],
             err = [], libc_diag = [], global_K = Fin 0\<rparr>
   \<and> find (\<lambda>f. fst f \<in> set ''hVHE'') (flags True [''muzz'', ''-k'', ''5'', ''-H'']) = Some (CHR ''H'', None)
   \<and> main True [''muzz'', ''-k'', ''5'', ''-H''] =
       Some \<lparr>exit_code = 0,
             out = ''All units of measure are Imperial by default.  U-S-A!  U-S-A!'' @ [NL, NL]
          @ ''Weight:'' @ [NL]
          @ ''  Si:'' @ [TAB, TAB] @ ''Grams (g)'' @ [NL]
          @ ''  Imperial:'' @ [TAB] @ ''Grains (gr) (7000 per pound)'' @ [NL, NL]
          @ ''Velocity:'' @ [NL]
          @ ''  Si:'' @ [TAB, TAB] @ ''Meters per second (m/s)'' @ [NL]
          @ ''  Imperial:'' @ [TAB] @ ''Feet per second (ft/s)'' @ [NL, NL]
          @ ''Diameter:'' @ [NL]
          @ ''  Si:'' @ [TAB, TAB] @ ''Millimeters (mm)'' @ [NL]
          @ ''  Imperial:'' @ [TAB] @ ''Inch caliber (fractions of inch) (ex.: .45)'' @ [NL, NL]
          @ ''Energy:'' @ [NL]
          @ ''  Si:'' @ [TAB, TAB] @ ''Joules (J)'' @ [NL]
          @ ''  Imperial:'' @ [TAB] @ ''Foot-pounds (lbf)'' @ [NL, NL]
          @ [NL] @ ''To calculate the standard muzzle energy of a projectile:'' @ [NL, NL]
          @ ''  Si:'' @ [TAB, TAB] @ ''( 2 * mass * (velocity*velocity)) / K'' @ [NL]
          @ ''  Imperial:'' @ [TAB] @ ''( mass * (velocity*velocity)) / K'' @ [NL, NL]
          @ ''  Default values of K are 450240 (Imperial) or 1000 (Si).'' @ [NL]
          @ ''  To use different numbers to calculate K, use the '' @ [QUOTE] @ ''-c''
            @ [QUOTE] @ '' or '' @ [QUOTE] @ ''-C'' @ [QUOTE] @ '' ''
          @ ''options:'' @ [NL]
          @ ''    -c:'' @ [TAB, TAB] @ ''K = 2 * 32.163 * 7000'' @ [NL]
          @ ''    -C:'' @ [TAB, TAB] @ ''K = 2 * 32.1739 * 7000'' @ [NL, NL]
          @ ''  You can also use the '' @ [QUOTE] @ ''-k'' @ [QUOTE]
            @ '' option to use a custom constant.'' @ [NL, NL]
          @ ''The Taylor Knockout Formula, if used, will return a number that'' @ [QUOTE] @ ''s''
          @ '' roughly the'' @ [NL]
          @ ''same regardless of whether or not the user chooses Si or ''
          @ ''Imperial units'' @ [NL]
          @ ''of measure.  The formula is as follows:'' @ [NL, NL]
          @ ''  Si:'' @ [TAB, TAB] @ ''( mass * velocity * diameter ) / 3500'' @ [NL]
          @ ''  Imperial:'' @ [TAB] @ ''( mass * velocity * diameter ) / 7000'' @ [NL, NL],
             err = [], libc_diag = [], global_K = Fin 5\<rparr>
   \<and> find (\<lambda>f. fst f \<in> set ''hVHE'') (flags True [''muzz'', ''-E'']) = Some (CHR ''E'', None)
   \<and> main True [''muzz'', ''-E''] =
       Some \<lparr>exit_code = 0,
             out = ''Examples:'' @ [NL, NL]
          @ ''muzz 230 900'' @ [NL]
          @ ''  Returns muzzle energy of a 230 grain bullet @ 900 ft/s'' @ [NL]
          @ [NL] @ ''muzz -s 15 270'' @ [NL]
          @ ''  Using Si units of measure, returns joules (15grams @ 270 m/s)'' @ [NL]
          @ [NL] @ ''muzz -qp 230 900'' @ [NL]
          @ ''  Same, but only the number and with nothing rounded'' @ [NL]
          @ [NL] @ ''muzz -mq 900 414'' @ [NL]
          @ ''  Given the velocity and muzzle energy, it will return only the ''
          @ ''mass'' @ [NL] @ ''  of the projectile.'' @ [NL]
          @ [NL] @ ''muzz -t 230 860 .45'' @ [NL]
          @ ''  Prints result using Taylor Knockout Formula, with the params''
          @ '' being'' @ [NL] @ ''  the mass (grains), velocity (ft/s) and diameter'' @ [NL]
          @ [NL] @ ''muzz -ts 15 255 11.6'' @ [NL]
          @ ''  Same, but using Si units (grams, meters/second, mm)'' @ [NL],
             err = [], libc_diag = [], global_K = Fin 0\<rparr>"
proof -
  have h1: "find (\<lambda>f. fst f \<in> set ''hVHE'') (flags False [''muzz'', ''-s'', ''230'', ''-tV'', ''900'', ''-h''])
     = Some (CHR ''V'', None)"
    by (simp add: muzz_eval)
  have h2: "find (\<lambda>f. fst f \<in> set ''hVHE'') (flags True [''muzz'', ''-qh'', ''230'']) = Some (CHR ''h'', None)"
    by (simp add: muzz_eval)
  have h3: "find (\<lambda>f. fst f \<in> set ''hVHE'') (flags True [''muzz'', ''-k'', ''5'', ''-H'']) = Some (CHR ''H'', None)"
    by (simp add: muzz_eval)
  have h4: "find (\<lambda>f. fst f \<in> set ''hVHE'') (flags True [''muzz'', ''-E'']) = Some (CHR ''E'', None)"
    by (simp add: muzz_eval)
  from informational_flag_exits [OF h1] informational_flag_exits [OF h2]
    informational_flag_exits [OF h3] informational_flag_exits [OF h4] h1 h2 h3 h4
  show ?thesis
    by (simp add: muzz_eval print_help_def print_version_def print_additional_help_def
        print_examples_def VERSION_def)
qed

text \<open>
  The claim as the specification words it fails: an unknown option before \<open>-h\<close> makes
  \<open>getopt\<close> write to the error stream, so the help text is not all that is printed; a
  \<open>-h\<close> that is the argument of \<open>-k\<close> is not a flag, and neither is a \<open>-h\<close> after the
  operands when \<open>getopt\<close> follows POSIX: the program then computes.
\<close>

theorem informational_flag_exits_counterexample:
  "main True [''muzz'', ''-z'', ''-h''] =
     Some \<lparr>exit_code = 0, out = print_help, err = [],
           libc_diag = [Invalid_option (CHR ''z'')], global_K = Fin 0\<rparr>
   \<and> main True [''muzz'', ''-k'', ''-h'', ''230'', ''900''] =
       Some \<lparr>exit_code = 0, out = ''230 gr @ 900 ft/s = inf lbf'' @ [NL], err = [],
             libc_diag = [], global_K = Fin 0\<rparr>
   \<and> main True [''muzz'', ''230'', ''900'', ''-h''] =
       Some \<lparr>exit_code = 0, out = ''230 gr @ 900 ft/s = 414 lbf'' @ [NL], err = [],
             libc_diag = [], global_K = Fin 450240\<rparr>"
  by (simp add: muzz_eval)

text \<open>With \<open>-t\<close> and three operands \<open>main\<close> calls \<open>tkof\<close>.\<close>

lemma main_knockout:
  assumes "find informational (flags posixly_correct argv) = None"
    and "CHR ''t'' \<in> fst ` set (flags posixly_correct argv)"
    and "3 \<le> length (operands posixly_correct argv)"
  shows "\<exists>st. getopt_loop posixly_correct (init_state argv) = Some (Inr st)
           \<and> main posixly_correct argv =
               Some (finish st 0
                 (tkof (atof (operands posixly_correct argv ! 0))
                       (atof (operands posixly_correct argv ! 1))
                       (atof (operands posixly_correct argv ! 2)) (st_options st)) [])
           \<and> (\<forall>w. after_options (st\<lparr>st_valueWanted := w\<rparr>) = after_options st)"
proof -
  from assms(2) have len: "2 \<le> length argv" by (auto dest: flags_nonempty_length)
  obtain st where loop: "getopt_loop posixly_correct (init_state argv) = Some (Inr st)"
    and m: "main posixly_correct argv = after_options st"
    and ops: "nonopts (st_getopt st) @ unscanned (st_getopt st) = operands posixly_correct argv"
    and c: "core st = core (apply_flags (flags posixly_correct argv) (init_state argv))"
    by (rule main_after_options [OF assms(1) len])
  from core_fields [OF c] assms(2) have tk: "st_options st OPT_TKOF = 1"
    by (simp add: apply_flags_TKOF)
  have a: "after_options (st\<lparr>st_valueWanted := w\<rparr>) =
        Some (finish st 0
                 (tkof (atof (operands posixly_correct argv ! 0))
                       (atof (operands posixly_correct argv ! 1))
                       (atof (operands posixly_correct argv ! 2)) (st_options st)) [])" for w
    using tk ops assms(3)
    by (auto simp: after_options_def compute_def atof_argv_def finish_def Let_def)
  from a [of "st_valueWanted st"] have b: "after_options st =
        Some (finish st 0
                 (tkof (atof (operands posixly_correct argv ! 0))
                       (atof (operands posixly_correct argv ! 1))
                       (atof (operands posixly_correct argv ! 2)) (st_options st)) [])"
    by simp
  from loop m a b show ?thesis by simp
qed

text \<open>
  C10, as the code has it. When \<open>-t\<close> is among the flags, together with any of \<open>-m\<close>,
  \<open>-v\<close>, \<open>-e\<close>, no informational flag is given and there are at least three operands,
  the program prints what \<open>tkof\<close> gives for the first three operands and exits with
  status 0; \<open>result\<close> is not called, and the rest of \<open>main\<close> gives the same whatever
  \<open>valueWanted\<close> holds.
\<close>

theorem knockout_ignores_target:
  assumes "find informational (flags posixly_correct argv) = None"
    and "CHR ''t'' \<in> fst ` set (flags posixly_correct argv)"
    and "3 \<le> length (operands posixly_correct argv)"
  shows "\<exists>st. getopt_loop posixly_correct (init_state argv) = Some (Inr st)
           \<and> main posixly_correct argv =
               Some (finish st 0
                 (tkof (atof (operands posixly_correct argv ! 0))
                       (atof (operands posixly_correct argv ! 1))
                       (atof (operands posixly_correct argv ! 2)) (st_options st)) [])
           \<and> (\<forall>w. after_options (st\<lparr>st_valueWanted := w\<rparr>) = after_options st)"
  by (rule main_knockout [OF assms])

theorem knockout_ignores_target_witness:
  "find informational (flags True [''muzz'', ''-t'', ''-m'', ''230'', ''860'', ''.45'']) = None
   \<and> CHR ''t'' \<in> fst ` set (flags True [''muzz'', ''-t'', ''-m'', ''230'', ''860'', ''.45''])
   \<and> 3 \<le> length (operands True [''muzz'', ''-t'', ''-m'', ''230'', ''860'', ''.45''])
   \<and> main True [''muzz'', ''-t'', ''-m'', ''230'', ''860'', ''.45''] =
       Some \<lparr>exit_code = 0,
             out = ''230 gr @ 860 ft/s (0.450'' @ [DQUOTE] @ '' diameter) = 12.72 TKOF'' @ [NL],
             err = [], libc_diag = [], global_K = Fin 0\<rparr>"
proof -
  let ?argv = "[''muzz'', ''-t'', ''-m'', ''230'', ''860'', ''.45'']"
  have h1: "find informational (flags True ?argv) = None"
    by (simp add: muzz_eval)
  have h2: "CHR ''t'' \<in> fst ` set (flags True ?argv)"
    by (simp add: muzz_eval)
  have h3: "3 \<le> length (operands True ?argv)"
    by (simp add: muzz_eval)
  have "main True ?argv = Some \<lparr>exit_code = 0,
             out = ''230 gr @ 860 ft/s (0.450'' @ [DQUOTE] @ '' diameter) = 12.72 TKOF'' @ [NL],
             err = [], libc_diag = [], global_K = Fin 0\<rparr>"
    using knockout_ignores_target [OF h1 h2 h3] by (simp add: muzz_eval)
  with h1 h2 h3 show ?thesis by blast
qed

text \<open>
  The claim as the specification words it fails: with \<open>-h\<close> behind \<open>-t\<close> and \<open>-m\<close>, and
  three operands, the program prints the help text and the knockout formula does not run.
\<close>

theorem knockout_ignores_target_counterexample:
  "flags True [''muzz'', ''-t'', ''-m'', ''-h'', ''230'', ''860'', ''.45'']
     = [(CHR ''t'', None), (CHR ''m'', None), (CHR ''h'', None)]
   \<and> operands True [''muzz'', ''-t'', ''-m'', ''-h'', ''230'', ''860'', ''.45'']
       = [''230'', ''860'', ''.45'']
   \<and> main True [''muzz'', ''-t'', ''-m'', ''-h'', ''230'', ''860'', ''.45''] =
       Some \<lparr>exit_code = 0, out = print_help, err = [], libc_diag = [], global_K = Fin 0\<rparr>
   \<and> take 6 print_help = ''Usage:''"
  by (simp add: muzz_eval print_help_def)

text \<open>
  C2, as the code has it. The constant \<open>result\<close> sets: 1000 in metric units when
  \<open>options[OPT_K]\<close> is not 0 (the default -1, 1 for \<open>-c\<close>, 2 for \<open>-C\<close>); in imperial
  units 450240 by default, and for \<open>-c\<close> and \<open>-C\<close> the products \<open>2 * 32.163 * 7000\<close>
  and \<open>2 * 32.1739 * 7000\<close> as double arithmetic gives them, 450281.99999999994 and
  450434.60000000003; the global \<open>K\<close> as it is when \<open>options[OPT_K]\<close> is 0, in both unit
  systems. In a run that reaches \<open>result\<close> (no informational flag, no \<open>-t\<close>, two
  operands) the global \<open>K\<close> ends as this constant, \<open>options[OPT_K]\<close> is one of the four
  values, and when it is 0 the constant is \<open>atof\<close> of the argument of the last \<open>-k\<close>.
\<close>

theorem constant_resolution:
  "(options OPT_SI = 1 \<and> options OPT_K \<in> {-1, 1, 2} \<longrightarrow> set_constant options K = Fin 1000)
   \<and> (options OPT_SI \<noteq> 1 \<and> options OPT_K = -1 \<longrightarrow> set_constant options K = Fin 450240)
   \<and> (options OPT_SI \<noteq> 1 \<and> options OPT_K = 1 \<longrightarrow>
         set_constant options K = dmul (dmul (Fin 2) (to_double 32.163)) (Fin 7000)
         \<and> set_constant options K = Fin (450282 - 1 / 2 ^ 34))
   \<and> (options OPT_SI \<noteq> 1 \<and> options OPT_K = 2 \<longrightarrow>
         set_constant options K = dmul (dmul (Fin 2) (to_double 32.1739)) (Fin 7000)
         \<and> set_constant options K = Fin (450434.6 + 3 / (5 * 2 ^ 34)))
   \<and> (options OPT_K = 0 \<longrightarrow> set_constant options K = K)
   \<and> (find informational (flags posixly_correct argv) = None
        \<and> CHR ''t'' \<notin> fst ` set (flags posixly_correct argv)
        \<and> 2 \<le> length (operands posixly_correct argv) \<longrightarrow>
        (\<exists>st outcome.
            getopt_loop posixly_correct (init_state argv) = Some (Inr st)
          \<and> main posixly_correct argv = Some outcome
          \<and> global_K outcome = set_constant (st_options st) (st_K st)
          \<and> st_options st OPT_K \<in> {-1, 0, 1, 2}
          \<and> (st_options st OPT_K = 0 \<longrightarrow>
                (\<exists>a. custom_constant (flags posixly_correct argv) = Some a
                     \<and> global_K outcome = atof a))))"
proof -
  have run: "\<exists>st outcome.
            getopt_loop posixly_correct (init_state argv) = Some (Inr st)
          \<and> main posixly_correct argv = Some outcome
          \<and> global_K outcome = set_constant (st_options st) (st_K st)
          \<and> st_options st OPT_K \<in> {-1, 0, 1, 2}
          \<and> (st_options st OPT_K = 0 \<longrightarrow>
                (\<exists>a. custom_constant (flags posixly_correct argv) = Some a
                     \<and> global_K outcome = atof a))"
    if h: "find informational (flags posixly_correct argv) = None"
      "CHR ''t'' \<notin> fst ` set (flags posixly_correct argv)"
      "2 \<le> length (operands posixly_correct argv)"
  proof -
    obtain st mass velocity energy where
      loop: "getopt_loop posixly_correct (init_state argv) = Some (Inr st)"
      and inp: "standard_inputs (st_valueWanted st) (operands posixly_correct argv)
                  = (mass, velocity, energy)"
      and m: "main posixly_correct argv =
           Some (finish (st\<lparr>st_K := set_constant (st_options st) (st_K st)\<rparr>) 0
                   (fst (result (st_K st) mass velocity energy (st_valueWanted st) (st_options st))) [])"
      and mode: "st_options st OPT_K \<in> {-1, 0, 1, 2}"
      and k: "st_K st = (case custom_constant (flags posixly_correct argv) of
                           None \<Rightarrow> Fin 0 | Some a \<Rightarrow> atof a)"
      and cust: "st_options st OPT_K = 0 \<longrightarrow>
                   (\<exists>a. custom_constant (flags posixly_correct argv) = Some a)"
      by (rule main_standard [OF h])
    let ?outcome = "finish (st\<lparr>st_K := set_constant (st_options st) (st_K st)\<rparr>) 0
                   (fst (result (st_K st) mass velocity energy (st_valueWanted st) (st_options st))) []"
    have g: "global_K ?outcome = set_constant (st_options st) (st_K st)"
      by (simp add: finish_def)
    have "\<exists>a. custom_constant (flags posixly_correct argv) = Some a \<and> global_K ?outcome = atof a"
      if z: "st_options st OPT_K = 0"
    proof -
      from cust z obtain a where a: "custom_constant (flags posixly_correct argv) = Some a"
        by blast
      with k have "st_K st = atof a" by simp
      with z g a show ?thesis by (simp add: set_constant_table)
    qed
    with loop m g mode show ?thesis by blast
  qed
  have c1: "dmul (dmul (Fin 2) (to_double 32.163)) (Fin 7000) = Fin (450282 - 1 / 2 ^ 34)"
    by (simp add: double_eval)
  have c2: "dmul (dmul (Fin 2) (to_double 32.1739)) (Fin 7000) = Fin (450434.6 + 3 / (5 * 2 ^ 34))"
    by (simp add: double_eval)
  have tab: "(options OPT_SI = 1 \<and> options OPT_K \<in> {-1, 1, 2} \<longrightarrow> set_constant options K = Fin 1000)
   \<and> (options OPT_SI \<noteq> 1 \<and> options OPT_K = -1 \<longrightarrow> set_constant options K = Fin 450240)
   \<and> (options OPT_SI \<noteq> 1 \<and> options OPT_K = 1 \<longrightarrow>
         set_constant options K = dmul (dmul (Fin 2) (to_double 32.163)) (Fin 7000)
         \<and> set_constant options K = Fin (450282 - 1 / 2 ^ 34))
   \<and> (options OPT_SI \<noteq> 1 \<and> options OPT_K = 2 \<longrightarrow>
         set_constant options K = dmul (dmul (Fin 2) (to_double 32.1739)) (Fin 7000)
         \<and> set_constant options K = Fin (450434.6 + 3 / (5 * 2 ^ 34)))
   \<and> (options OPT_K = 0 \<longrightarrow> set_constant options K = K)"
    using c1 c2 by (auto simp: set_constant_table)
  from tab run show ?thesis by blast
qed

theorem constant_resolution_witness:
  "set_constant ((\<lambda>i. -1)(OPT_SI := 1, OPT_K := 2)) (Fin 0) = Fin 1000
   \<and> set_constant ((\<lambda>i. -1)(OPT_K := 1)) (Fin 0) = Fin (450282 - 1 / 2 ^ 34)
   \<and> set_constant ((\<lambda>i. -1)(OPT_K := 2)) (Fin 0) = Fin (450434.6 + 3 / (5 * 2 ^ 34))
   \<and> set_constant (\<lambda>i. -1) (Fin 0) = Fin 450240
   \<and> set_constant ((\<lambda>i. -1)(OPT_SI := 1, OPT_K := 0)) (Fin 77) = Fin 77
   \<and> find informational (flags True [''muzz'', ''-s'', ''-k'', ''500'', ''15'', ''270'']) = None
   \<and> CHR ''t'' \<notin> fst ` set (flags True [''muzz'', ''-s'', ''-k'', ''500'', ''15'', ''270''])
   \<and> 2 \<le> length (operands True [''muzz'', ''-s'', ''-k'', ''500'', ''15'', ''270''])
   \<and> custom_constant (flags True [''muzz'', ''-s'', ''-k'', ''500'', ''15'', ''270'']) = Some ''500''
   \<and> main True [''muzz'', ''-s'', ''-k'', ''500'', ''15'', ''270''] =
       Some \<lparr>exit_code = 0, out = ''15.00 g @ 270.00 m/s = 1094 J'' @ [NL], err = [],
             libc_diag = [], global_K = Fin 500\<rparr>"
  using constant_resolution [of "(\<lambda>i. -1)(OPT_SI := 1, OPT_K := 2)" "Fin 0" True
      "[''muzz'', ''-s'', ''-k'', ''500'', ''15'', ''270'']"]
    constant_resolution [of "(\<lambda>i. -1)(OPT_K := 1)" "Fin 0"]
    constant_resolution [of "(\<lambda>i. -1)(OPT_K := 2)" "Fin 0"]
    constant_resolution [of "(\<lambda>i. -1)" "Fin 0"]
    constant_resolution [of "(\<lambda>i. -1)(OPT_SI := 1, OPT_K := 0)" "Fin 77"]
  by (simp add: muzz_eval)

text \<open>
  The claim as the specification words it fails: it speaks of every invocation, and an
  invocation with \<open>-t\<close> never sets the constant. With \<open>-tsc\<close> the constant mode is
  approximate gravity and the units are metric, yet the global \<open>K\<close> ends as the zero it
  started with, not as 1000.
\<close>

theorem constant_resolution_counterexample:
  "flags True [''muzz'', ''-tsc'', ''15'', ''255'', ''11.6'']
     = [(CHR ''t'', None), (CHR ''s'', None), (CHR ''c'', None)]
   \<and> main True [''muzz'', ''-tsc'', ''15'', ''255'', ''11.6''] =
       Some \<lparr>exit_code = 0,
             out = ''15.00 g @ 255.00 m/s (11.60 mm diameter) = 12.68 TKOF'' @ [NL],
             err = [], libc_diag = [], global_K = Fin 0\<rparr>"
  by (simp add: muzz_eval)

end
